theory Spec2Isabelle
  imports Main "HOL-Library.AList"
begin

section \<open>csv-chef: the recipe evaluator and the row driver (recipe.go)\<close>

text \<open>
  A shallow embedding of \<^verbatim>\<open>src/recipe/recipe.go\<close>. Go strings are byte strings
  (\<open>string\<close>), Go's \<^verbatim>\<open>int\<close> is an \<open>int\<close> (no arithmetic of the file can
  overflow except the clamping of \<^verbatim>\<open>strconv.Atoi\<close>, which is written out), a returned
  \<^verbatim>\<open>error\<close> is the left summand of a sum, and a run-time panic is a value of its own.
\<close>

subsection \<open>Data model\<close>

text \<open>
  Modelled from the spec: the declaration of \<^verbatim>\<open>DataType\<close> is not in recipe.go; section 3 of
  the specification lists its five variants.
\<close>

datatype DataType = Column | Variable | Header | Literal | Placeholder

text \<open>
  The constants \<^verbatim>\<open>Replace\<close> and \<^verbatim>\<open>Join\<close> are declared outside recipe.go;
  \<^verbatim>\<open>processRecipe\<close> assigns no other value to \<^verbatim>\<open>mode\<close>, so the \<^verbatim>\<open>default\<close> branch of
  its second switch (\<^verbatim>\<open>invalid join mode\<close>) cannot be reached and has no counterpart here.
\<close>

datatype Mode = Replace | Join

record Argument =
  Type :: DataType
  Value :: string

text \<open>\<^verbatim>\<open>Output\<close> has the same two fields as \<^verbatim>\<open>Argument\<close>; they carry the prefix \<open>O\<close> here.\<close>

record Output =
  OType :: DataType
  OValue :: string

record Operation =
  Name :: string
  Arguments :: "Argument list"

record Recipe =
  Output :: Output
  Pipe :: "Operation list"
  Comment :: string

text \<open>
  A Go map of the transformation is an association list: \<open>map_of\<close> is the lookup, the
  length is \<^verbatim>\<open>len\<close> (the functions below never add a key twice), and the order of the list
  stands for the order in which \<^verbatim>\<open>range\<close> visits the keys, which Go leaves unspecified:
  every theorem holds for every order.
\<close>

record Transformation =
  Variables :: "(string \<times> Recipe) list"
  Columns :: "(int \<times> Recipe) list"
  Headers :: "(int \<times> Recipe) list"
  VariableOrder :: "string list"

text \<open>The maps of a \<^verbatim>\<open>LineContext\<close> are only read and written by key.\<close>

record LineContext =
  CtxVariables :: "string \<rightharpoonup> string"
  CtxColumns :: "int \<rightharpoonup> string"
  LineNo :: int

record TransformationResult =
  HeaderLines :: int
  Lines :: int

text \<open>
  A Go \<^verbatim>\<open>error\<close> carries its message; indexing a slice out of range panics.
\<close>

datatype error = Error string | IndexPanic

text \<open>
  What recipe.go calls but does not define is a parameter of the model:
  \<^item> \<open>ToLower\<close> is \<^verbatim>\<open>strings.ToLower\<close>;
  \<^item> \<open>TypeString\<close> is the method \<^verbatim>\<open>DataType.String\<close>;
  \<^item> \<open>ZeroType\<close> is the zero value of \<^verbatim>\<open>DataType\<close> (the type of the \<^verbatim>\<open>Output\<close> of a
    \<^verbatim>\<open>Recipe\<close> read from a map at a missing key);
  \<^item> \<open>Call f args\<close> is the result pair \<^verbatim>\<open>(string, error)\<close> of the operation-library function
    \<open>f\<close> (\<^verbatim>\<open>Uppercase\<close>, \<^verbatim>\<open>Add\<close>, \<^verbatim>\<open>Today\<close>, ...) on \<open>args\<close>; the functions of one result
    (\<^verbatim>\<open>Uppercase\<close>, \<^verbatim>\<open>Lowercase\<close>) return it in the first component. The clock read by
    \<^verbatim>\<open>Today\<close> and \<^verbatim>\<open>NowTime\<close> is part of this parameter.
\<close>

record Env =
  ToLower :: "string \<Rightarrow> string"
  TypeString :: "DataType \<Rightarrow> string"
  ZeroType :: DataType
  Call :: "string \<Rightarrow> string list \<Rightarrow> string \<times> string option"

subsection \<open>Decimal text: \<^verbatim>\<open>strconv.Itoa\<close>, \<^verbatim>\<open>%d\<close> and \<^verbatim>\<open>strconv.Atoi\<close>\<close>

definition digitChar :: "nat \<Rightarrow> char" where
  "digitChar d = char_of (48 + d)"

fun natToDec :: "nat \<Rightarrow> string" where
  "natToDec n = (if n < 10 then [digitChar n] else natToDec (n div 10) @ [digitChar (n mod 10)])"

declare natToDec.simps [simp del]

definition Itoa :: "int \<Rightarrow> string" where
  "Itoa i = (if i < 0 then CHR ''-'' # natToDec (nat (- i)) else natToDec (nat i))"

definition isDigit :: "char \<Rightarrow> bool" where
  "isDigit c = (48 \<le> (of_char c :: nat) \<and> (of_char c :: nat) \<le> 57)"

text \<open>
  The loop of \<^verbatim>\<open>strconv.ParseUint(s, 10, 64)\<close> over the bytes of a non-empty string, from
  the value read so far: a byte that is no digit is a syntax error (\<open>None\<close>); a value that
  leaves the range of \<^verbatim>\<open>uint64\<close> ends the loop at once with the range error and the
  largest value, whatever follows.
\<close>

definition maxUint64 :: int where
  "maxUint64 = 2 ^ 64 - 1"

fun parseUint :: "int \<Rightarrow> string \<Rightarrow> int option" where
  "parseUint n [] = Some n"
| "parseUint n (c # cs) =
     (if \<not> isDigit c then None
      else if n \<ge> maxUint64 div 10 + 1 then Some maxUint64
      else
        (let n1 = n * 10 + ((of_char c :: int) - 48) in
         if n1 > maxUint64 then Some maxUint64 else parseUint n1 cs))"

text \<open>
  \<^verbatim>\<open>n, _ := strconv.Atoi(s)\<close> on a 64-bit platform: an optional sign, then
  \<^verbatim>\<open>ParseUint\<close> on the rest. A syntax error (no digit at all, or a byte that is no digit)
  leaves \<open>0\<close>; a value out of the range of \<^verbatim>\<open>int64\<close> leaves the nearest bound. The fast
  path of \<^verbatim>\<open>Atoi\<close> for strings of fewer than 19 bytes gives the same results.
\<close>

definition Atoi :: "string \<Rightarrow> int" where
  "Atoi s =
     (let neg = (s \<noteq> [] \<and> hd s = CHR ''-'');
          ds = (if s \<noteq> [] \<and> (hd s = CHR ''-'' \<or> hd s = CHR ''+'') then tl s else s)
      in if ds = [] then 0
         else
           (case parseUint 0 ds of
              None \<Rightarrow> 0
            | Some un \<Rightarrow>
                if \<not> neg \<and> un \<ge> 2 ^ 63 then 2 ^ 63 - 1
                else if neg \<and> un > 2 ^ 63 then - (2 ^ 63)
                else if neg then - un else un))"

text \<open>The number a string of digits denotes, continuing from \<open>n\<close>.\<close>

definition digitsVal :: "int \<Rightarrow> string \<Rightarrow> int" where
  "digitsVal n ds = foldl (\<lambda>n c. n * 10 + ((of_char c :: int) - 48)) n ds"

subsection \<open>\<^verbatim>\<open>Argument.GetValue\<close>\<close>

definition GetValue :: "Env \<Rightarrow> Argument \<Rightarrow> LineContext \<Rightarrow> string \<Rightarrow> string + string" where
  "GetValue E a context placeholder =
     (case Type a of
        Column \<Rightarrow>
          (let colNum = Atoi (Value a) in
           case CtxColumns context colNum of
             None \<Rightarrow> Inl (''column '' @ Itoa colNum @ '' referenced, but it does not exist in the input'')
           | Some colValue \<Rightarrow> Inr colValue)
      | Variable \<Rightarrow>
          (case CtxVariables context (Value a) of
             None \<Rightarrow> Inl (''variable '' @ [CHR 0x27] @ Value a @ [CHR 0x27] @ '' referenced, but it is not defined'')
           | Some varValue \<Rightarrow> Inr varValue)
      | Literal \<Rightarrow> Inr (Value a)
      | Placeholder \<Rightarrow> Inr placeholder
      | Header \<Rightarrow> Inl (''argument GetValue not implemented for type '' @ TypeString E (Type a)))"

subsection \<open>\<^verbatim>\<open>processArgs\<close>\<close>

definition getPlaceholderArg :: Argument where
  "getPlaceholderArg = \<lparr>Type = Placeholder, Value = ''?''\<rparr>"

text \<open>The first loop of \<^verbatim>\<open>processArgs\<close>: append placeholders while the list is too short.\<close>

definition padArgs :: "nat \<Rightarrow> Argument list \<Rightarrow> Argument list" where
  "padArgs numArgs arguments = arguments @ replicate (numArgs - length arguments) getPlaceholderArg"

text \<open>The second loop: the values of the arguments in order, stopping at the first error.\<close>

fun getValues :: "Env \<Rightarrow> Argument list \<Rightarrow> LineContext \<Rightarrow> string \<Rightarrow> string + string list" where
  "getValues E [] context placeholder = Inr []"
| "getValues E (a # as) context placeholder =
     (case GetValue E a context placeholder of
        Inl err \<Rightarrow> Inl err
      | Inr v \<Rightarrow>
          (case getValues E as context placeholder of
             Inl err \<Rightarrow> Inl err
           | Inr vs \<Rightarrow> Inr (v # vs)))"

definition processArgs :: "Env \<Rightarrow> nat \<Rightarrow> Argument list \<Rightarrow> LineContext \<Rightarrow> string \<Rightarrow> string + string list" where
  "processArgs E numArgs arguments context placeholder =
     getValues E (take numArgs (padArgs numArgs arguments)) context placeholder"

subsection \<open>\<^verbatim>\<open>processRecipe\<close>\<close>

text \<open>
  Twenty-four cases of the switch on the lower-cased operation name have one shape:
  \<^verbatim>\<open>args, err := processArgs(n, o.Arguments, context, placeholder)\<close>, the error reported as
  \<^verbatim>\<open>NAME(): error evaluating arg: ...\<close>, then a call of a library function on the first \<open>k\<close>
  values, whose error is either reported as \<^verbatim>\<open>NAME(): ...\<close> (checked) or dropped
  (\<^verbatim>\<open>result, _ := ...\<close>). One row per case: the name of the case, \<open>n\<close>, the function, \<open>k\<close>,
  and whether the error is checked.
\<close>

definition libOps :: "(string \<times> nat \<times> string \<times> nat \<times> bool) list" where
  "libOps =
    [(''add'', 2, ''Add'', 2, True),
     (''subtract'', 2, ''Subtract'', 2, True),
     (''multiply'', 2, ''Multiply'', 2, True),
     (''divide'', 2, ''Divide'', 2, True),
     (''change'', 3, ''Change'', 3, False),
     (''changei'', 3, ''ChangeI'', 3, False),
     (''ifempty'', 3, ''IfEmpty'', 3, False),
     (''isempty'', 3, ''IfEmpty'', 3, False),
     (''numberformat'', 3, ''NumberFormat'', 2, True),
     (''removedigits'', 1, ''RemoveDigits'', 1, False),
     (''onlydigits'', 1, ''OnlyDigits'', 1, False),
     (''mod'', 2, ''Modulus'', 2, True),
     (''trim'', 1, ''Trim'', 1, False),
     (''firstchars'', 2, ''FirstChars'', 2, True),
     (''lastchars'', 2, ''LastChars'', 2, True),
     (''repeat'', 2, ''Repeat'', 2, True),
     (''replace'', 3, ''ReplaceString'', 3, False),
     (''formatdate'', 2, ''FormatDate'', 2, True),
     (''formatdatef'', 2, ''FormatDateF'', 2, True),
     (''readdate'', 2, ''ReadDate'', 2, True),
     (''readdatef'', 2, ''ReadDateF'', 2, True),
     (''smartdate'', 1, ''SmartDate'', 1, True),
     (''ispast'', 3, ''IsPast'', 3, True),
     (''isfuture'', 3, ''IsFuture'', 3, True)]"

text \<open>The switch on \<^verbatim>\<open>mode\<close> that ends an iteration: the new placeholder and mode.\<close>

definition combine :: "Mode \<Rightarrow> string \<Rightarrow> string \<Rightarrow> string \<times> Mode" where
  "combine mode placeholder v =
     (case mode of
        Replace \<Rightarrow> (v, Replace)
      | Join \<Rightarrow> (placeholder @ v, Replace))"

text \<open>
  One iteration of the loop over \<^verbatim>\<open>variable.Pipe\<close>, from the placeholder and mode before
  it to those after it. \<^verbatim>\<open>o.Arguments[0]\<close> panics on an empty slice; \<^verbatim>\<open>continue\<close> in the
  case \<^verbatim>\<open>join\<close> leaves the iteration before the switch on \<^verbatim>\<open>mode\<close>.
\<close>

definition processOp ::
  "Env \<Rightarrow> string \<Rightarrow> LineContext \<Rightarrow> string \<times> Mode \<Rightarrow> Operation \<Rightarrow> error + string \<times> Mode" where
  "processOp E errorPrefix context st op =
     (let placeholder = fst st; mode = snd st; opName = ToLower E (Name op) in
      if opName = ''value'' then
        (case Arguments op of
           [] \<Rightarrow> Inl IndexPanic
         | firstArg # _ \<Rightarrow>
             (case GetValue E firstArg context placeholder of
                Inl err \<Rightarrow> Inl (Error (errorPrefix @ '' '' @ err))
              | Inr argValue \<Rightarrow> Inr (combine mode placeholder argValue)))
      else if opName = ''join'' then
        (case Arguments op of
           [] \<Rightarrow> Inl IndexPanic
         | firstArg # _ \<Rightarrow>
             (case GetValue E firstArg context placeholder of
                Inl err \<Rightarrow> Inl (Error (errorPrefix @ '' '' @ err))
              | Inr argValue \<Rightarrow>
                  if Type firstArg = Placeholder then Inr (placeholder, Join)
                  else Inr (combine Join placeholder argValue)))
      else if opName = ''uppercase'' \<or> opName = ''lowercase'' then
        (case Arguments op of
           [] \<Rightarrow> Inl IndexPanic
         | a # _ \<Rightarrow>
             (case GetValue E a context placeholder of
                Inl err \<Rightarrow> Inl (Error (errorPrefix @ '' '' @ opName @ ''(): error evaluating arg: '' @ err))
              | Inr firstArg \<Rightarrow>
                  Inr (combine mode placeholder
                        (fst (Call E (if opName = ''uppercase'' then ''Uppercase'' else ''Lowercase'') [firstArg])))))
      else if opName = ''lineno'' then
        Inr (combine mode placeholder (Itoa (LineNo context)))
      else if opName = ''today'' then
        Inr (combine mode placeholder (fst (Call E ''Today'' [])))
      else if opName = ''now'' then
        Inr (combine mode placeholder (fst (Call E ''NowTime'' [])))
      else
        (case map_of libOps opName of
           None \<Rightarrow>
             Inl (Error (errorPrefix @ '' error: processing variable, unimplemented operation '' @ Name op))
         | Some (numArgs, f, k, checked) \<Rightarrow>
             (case processArgs E numArgs (Arguments op) context placeholder of
                Inl err \<Rightarrow> Inl (Error (errorPrefix @ '' '' @ opName @ ''(): error evaluating arg: '' @ err))
              | Inr args \<Rightarrow>
                  (case Call E f (take k args) of
                     (result, operr) \<Rightarrow>
                       (case (if checked then operr else None) of
                          Some err \<Rightarrow> Inl (Error (errorPrefix @ '' '' @ opName @ ''(): '' @ err))
                        | None \<Rightarrow> Inr (combine mode placeholder result))))))"

text \<open>The loop over \<^verbatim>\<open>variable.Pipe\<close>: the placeholder and mode when it ends.\<close>

fun runPipe ::
  "Env \<Rightarrow> string \<Rightarrow> LineContext \<Rightarrow> Operation list \<Rightarrow> string \<times> Mode \<Rightarrow> error + string \<times> Mode" where
  "runPipe E errorPrefix context [] st = Inr st"
| "runPipe E errorPrefix context (op # ops) st =
     (case processOp E errorPrefix context st op of
        Inl e \<Rightarrow> Inl e
      | Inr st' \<Rightarrow> runPipe E errorPrefix context ops st')"

definition errorPrefix :: "string \<Rightarrow> Recipe \<Rightarrow> LineContext \<Rightarrow> string" where
  "errorPrefix recipeType variable context =
     ''line '' @ Itoa (LineNo context) @ '' / '' @ recipeType @ '' '' @ OValue (Output variable) @ '':''"

definition processRecipe :: "Env \<Rightarrow> string \<Rightarrow> Recipe \<Rightarrow> LineContext \<Rightarrow> error + string" where
  "processRecipe E recipeType variable context =
     (case runPipe E (errorPrefix recipeType variable context) context (Pipe variable) ('''', Replace) of
        Inl e \<Rightarrow> Inl e
      | Inr st \<Rightarrow> Inr (fst st))"

subsection \<open>Building a transformation\<close>

definition NewTransformation :: Transformation where
  "NewTransformation = \<lparr>Variables = [], Columns = [], Headers = [], VariableOrder = []\<rparr>"

text \<open>
  Modelled from the spec: \<^verbatim>\<open>getOutputForVariable\<close>, \<^verbatim>\<open>getOutputForColumn\<close> and
  \<^verbatim>\<open>getOutputForHeader\<close> are not in recipe.go; by section 3 the output of a recipe
  describes its target, with the variable name or the column number as its value.
\<close>

definition getOutputForVariable :: "string \<Rightarrow> Output" where
  "getOutputForVariable variable = \<lparr>OType = Variable, OValue = variable\<rparr>"

definition getOutputForColumn :: "string \<Rightarrow> Output" where
  "getOutputForColumn column = \<lparr>OType = Column, OValue = column\<rparr>"

definition getOutputForHeader :: "string \<Rightarrow> Output" where
  "getOutputForHeader header = \<lparr>OType = Header, OValue = header\<rparr>"

text \<open>\<^verbatim>\<open>Recipe{Output: out}\<close>: the other fields have their zero values.\<close>

definition newRecipe :: "Output \<Rightarrow> Recipe" where
  "newRecipe out = \<lparr>Output = out, Pipe = [], Comment = ''''\<rparr>"

text \<open>\<^verbatim>\<open>m[k]\<close> read in one-result form: the zero \<^verbatim>\<open>Recipe\<close> at a missing key.\<close>

definition lookupRecipe :: "Env \<Rightarrow> ('k \<times> Recipe) list \<Rightarrow> 'k \<Rightarrow> Recipe" where
  "lookupRecipe E m k =
     (case map_of m k of
        None \<Rightarrow> newRecipe \<lparr>OType = ZeroType E, OValue = ''''\<rparr>
      | Some r \<Rightarrow> r)"

text \<open>The methods change the transformation in place: the model returns the new one.\<close>

definition AddOutputToVariable :: "string \<Rightarrow> Transformation \<Rightarrow> string option \<times> Transformation" where
  "AddOutputToVariable variable t =
     (case map_of (Variables t) variable of
        Some _ \<Rightarrow> (Some (''variable '' @ variable @ '' already defined''), t)
      | None \<Rightarrow>
          (None, t\<lparr>Variables := AList.update variable (newRecipe (getOutputForVariable variable)) (Variables t)\<rparr>))"

definition AddOutputToColumn :: "string \<Rightarrow> Transformation \<Rightarrow> string option \<times> Transformation" where
  "AddOutputToColumn column t =
     (let output = getOutputForColumn column; columnNum = Atoi column in
      case map_of (Columns t) columnNum of
        Some _ \<Rightarrow> (Some (''column '' @ Itoa columnNum @ '' already defined''), t)
      | None \<Rightarrow> (None, t\<lparr>Columns := AList.update columnNum (newRecipe output) (Columns t)\<rparr>))"

definition AddOutputToHeader :: "string \<Rightarrow> Transformation \<Rightarrow> string option \<times> Transformation" where
  "AddOutputToHeader header t =
     (let output = getOutputForHeader header; headerNum = Atoi header in
      case map_of (Headers t) headerNum of
        Some _ \<Rightarrow> (Some (''header '' @ Itoa headerNum @ '' already defined''), t)
      | None \<Rightarrow> (None, t\<lparr>Headers := AList.update headerNum (newRecipe output) (Headers t)\<rparr>))"

definition AddOperationToVariable :: "Env \<Rightarrow> string \<Rightarrow> Operation \<Rightarrow> Transformation \<Rightarrow> Transformation" where
  "AddOperationToVariable E variable operation t =
     (let t1 = (if map_of (Variables t) variable = None then snd (AddOutputToVariable variable t) else t);
          recipe = lookupRecipe E (Variables t1) variable
      in t1\<lparr>Variables := AList.update variable (recipe\<lparr>Pipe := Pipe recipe @ [operation]\<rparr>) (Variables t1)\<rparr>)"

definition AddOperationToColumn :: "Env \<Rightarrow> string \<Rightarrow> Operation \<Rightarrow> Transformation \<Rightarrow> Transformation" where
  "AddOperationToColumn E column operation t =
     (let columnNumber = Atoi column;
          t1 = (if map_of (Columns t) columnNumber = None then snd (AddOutputToColumn column t) else t);
          recipe = lookupRecipe E (Columns t1) columnNumber
      in t1\<lparr>Columns := AList.update columnNumber (recipe\<lparr>Pipe := Pipe recipe @ [operation]\<rparr>) (Columns t1)\<rparr>)"

definition AddOperationToHeader :: "Env \<Rightarrow> string \<Rightarrow> Operation \<Rightarrow> Transformation \<Rightarrow> Transformation" where
  "AddOperationToHeader E header operation t =
     (let headerNumber = Atoi header;
          t1 = (if map_of (Headers t) headerNumber = None then snd (AddOutputToHeader header t) else t);
          recipe = lookupRecipe E (Headers t1) headerNumber
      in t1\<lparr>Headers := AList.update headerNumber (recipe\<lparr>Pipe := Pipe recipe @ [operation]\<rparr>) (Headers t1)\<rparr>)"

definition AddOperationByType :: "Env \<Rightarrow> DataType \<Rightarrow> string \<Rightarrow> Operation \<Rightarrow> Transformation \<Rightarrow> Transformation" where
  "AddOperationByType E targetType target operation t =
     (case targetType of
        Variable \<Rightarrow> AddOperationToVariable E target operation t
      | Column \<Rightarrow> AddOperationToColumn E target operation t
      | Header \<Rightarrow> AddOperationToHeader E target operation t
      | _ \<Rightarrow> t)"

text \<open>A sequence of the calls that build a transformation, applied from left to right.\<close>

datatype BuildCall =
    CallAddOutputToVariable string
  | CallAddOperationToVariable string Operation
  | CallAddOperationByType DataType string Operation

fun applyCall :: "Env \<Rightarrow> Transformation \<Rightarrow> BuildCall \<Rightarrow> Transformation" where
  "applyCall E t (CallAddOutputToVariable v) = snd (AddOutputToVariable v t)"
| "applyCall E t (CallAddOperationToVariable v operation) = AddOperationToVariable E v operation t"
| "applyCall E t (CallAddOperationByType ty target operation) = AddOperationByType E ty target operation t"

definition applyCalls :: "Env \<Rightarrow> BuildCall list \<Rightarrow> Transformation \<Rightarrow> Transformation" where
  "applyCalls E calls t = foldl (applyCall E) t calls"

text \<open>
  The association lists stand for maps: their keys are distinct. \<^verbatim>\<open>NewTransformation\<close> and
  the calls above keep them so.
\<close>

definition distinctKeys :: "Transformation \<Rightarrow> bool" where
  "distinctKeys t \<longleftrightarrow> distinct (map fst (Variables t)) \<and> distinct (map fst (Columns t)) \<and> distinct (map fst (Headers t))"

subsection \<open>\<^verbatim>\<open>ValidateRecipe\<close>\<close>

definition ValidateRecipe :: "Transformation \<Rightarrow> string option" where
  "ValidateRecipe t =
     (let numColumns = int (length (Columns t)) in
      if numColumns = 0 then Some ''no column recipes provided''
      else
        (case find (\<lambda>c. map_of (Columns t) c = None) [1..numColumns] of
           Some c \<Rightarrow> Some (''missing column definition for column #'' @ Itoa c)
         | None \<Rightarrow>
             (case find (\<lambda>h. map_of (Columns t) h = None) (map fst (Headers t)) of
                Some h \<Rightarrow>
                  Some (''found header for column '' @ Itoa h @ '', but no recipe for column '' @ Itoa h)
              | None \<Rightarrow> None)))"

subsection \<open>\<^verbatim>\<open>Execute\<close>\<close>

text \<open>
  The reader is the list of what its calls of \<^verbatim>\<open>Read\<close> will return: a row, or an error
  other than \<^verbatim>\<open>io.EOF\<close>; at the end of the list it returns \<^verbatim>\<open>io.EOF\<close>. The writer is
  a state \<open>'w\<close> with the two methods \<^verbatim>\<open>Execute\<close> calls: \<^verbatim>\<open>Write\<close>, which may fail,
  and \<^verbatim>\<open>Flush\<close>.
\<close>

type_synonym Reader = "(string + string list) list"

record 'w CsvWriter =
  WriteRow :: "'w \<Rightarrow> string list \<Rightarrow> string option \<times> 'w"
  FlushW :: "'w \<Rightarrow> 'w"

text \<open>\<^verbatim>\<open>for i, v := range row { context.Columns[i+1] = v }\<close>\<close>

definition loadColumns :: "string list \<Rightarrow> (int \<rightharpoonup> string)" where
  "loadColumns row = foldl (\<lambda>m iv. m(int (fst iv) + 1 \<mapsto> snd iv)) Map.empty (enumerate 0 row)"

text \<open>The loop over \<^verbatim>\<open>t.VariableOrder\<close>.\<close>

fun processVariables :: "Env \<Rightarrow> Transformation \<Rightarrow> string list \<Rightarrow> LineContext \<Rightarrow> error + LineContext" where
  "processVariables E t [] context = Inr context"
| "processVariables E t (v # vs) context =
     (let variableName = OValue (Output (lookupRecipe E (Variables t) v));
          variableRecipe = lookupRecipe E (Variables t) v
      in case processRecipe E ''variable'' variableRecipe context of
           Inl err \<Rightarrow> Inl err
         | Inr placeholder \<Rightarrow>
             processVariables E t vs
               (context\<lparr>CtxVariables := (CtxVariables context)(variableName \<mapsto> placeholder)\<rparr>))"

text \<open>\<^verbatim>\<open>for i := 1; i <= numColumns; i++ { ... output[i] = value }\<close> of the header branch.\<close>

definition seedHeaders :: "int \<Rightarrow> string list \<Rightarrow> (int \<rightharpoonup> string)" where
  "seedHeaders numColumns row =
     foldl (\<lambda>output i.
              output(i \<mapsto> (if i \<le> int (length row) then row ! nat (i - 1) else ''column '' @ Itoa i)))
       Map.empty [1..numColumns]"

text \<open>
  The loops \<^verbatim>\<open>for h := range t.Headers\<close> and \<^verbatim>\<open>for c := range t.Columns\<close> have one
  shape: evaluate the recipe at each key in turn and store the result in \<^verbatim>\<open>output\<close>.
\<close>

fun runRecipes ::
  "Env \<Rightarrow> string \<Rightarrow> (int \<times> Recipe) list \<Rightarrow> int list \<Rightarrow> LineContext \<Rightarrow> (int \<rightharpoonup> string)
     \<Rightarrow> error + (int \<rightharpoonup> string)" where
  "runRecipes E recipeType m [] context output = Inr output"
| "runRecipes E recipeType m (k # ks) context output =
     (case processRecipe E recipeType (lookupRecipe E m k) context of
        Inl err \<Rightarrow> Inl err
      | Inr placeholder \<Rightarrow> runRecipes E recipeType m ks context (output(k \<mapsto> placeholder)))"

text \<open>\<^verbatim>\<open>output[i]\<close> at a missing key is the empty string.\<close>

definition outputRow :: "int \<Rightarrow> (int \<rightharpoonup> string) \<Rightarrow> string list" where
  "outputRow numColumns output = map (\<lambda>i. case output i of None \<Rightarrow> '''' | Some v \<Rightarrow> v) [1..numColumns]"

definition outputCsvRow :: "'w CsvWriter \<Rightarrow> int \<Rightarrow> (int \<rightharpoonup> string) \<Rightarrow> 'w \<Rightarrow> error option \<times> 'w" where
  "outputCsvRow W numColumns output w =
     (case WriteRow W w (outputRow numColumns output) of
        (Some err, w') \<Rightarrow> (Some (Error err), w')
      | (None, w') \<Rightarrow> (None, w'))"

text \<open>The header branch, \<^verbatim>\<open>if processHeader && linesRead == 1 { ... }\<close>.\<close>

definition headerBranch ::
  "'w CsvWriter \<Rightarrow> Env \<Rightarrow> Transformation \<Rightarrow> int \<Rightarrow> string list \<Rightarrow> LineContext \<Rightarrow> 'w \<Rightarrow> error option \<times> 'w" where
  "headerBranch W E t numColumns row context w =
     (case runRecipes E ''header'' (Headers t) (map fst (Headers t)) context (seedHeaders numColumns row) of
        Inl err \<Rightarrow> (Some err, w)
      | Inr output \<Rightarrow> outputCsvRow W numColumns output w)"

text \<open>The column branch, \<^verbatim>\<open>if !processHeader || linesRead > 1 { ... }\<close>.\<close>

definition columnBranch ::
  "'w CsvWriter \<Rightarrow> Env \<Rightarrow> Transformation \<Rightarrow> int \<Rightarrow> LineContext \<Rightarrow> 'w \<Rightarrow> error option \<times> 'w" where
  "columnBranch W E t numColumns context w =
     (case runRecipes E ''column'' (Columns t) (map fst (Columns t)) context Map.empty of
        Inl err \<Rightarrow> (Some err, w)
      | Inr output \<Rightarrow> outputCsvRow W numColumns output w)"

text \<open>The context of a row once its variables are bound.\<close>

definition rowContext :: "Env \<Rightarrow> Transformation \<Rightarrow> int \<Rightarrow> string list \<Rightarrow> error + LineContext" where
  "rowContext E t linesRead row =
     processVariables E t (VariableOrder t)
       \<lparr>CtxVariables = Map.empty, CtxColumns = loadColumns row, LineNo = linesRead\<rparr>"

text \<open>The body of the loop of \<^verbatim>\<open>Execute\<close> after \<^verbatim>\<open>linesRead++\<close>.\<close>

definition processRow ::
  "'w CsvWriter \<Rightarrow> Env \<Rightarrow> Transformation \<Rightarrow> int \<Rightarrow> bool \<Rightarrow> int \<Rightarrow> string list \<Rightarrow> 'w \<Rightarrow> error option \<times> 'w" where
  "processRow W E t numColumns processHeader linesRead row w =
     (case rowContext E t linesRead row of
        Inl err \<Rightarrow> (Some err, w)
      | Inr context \<Rightarrow>
          (case (if processHeader \<and> linesRead = 1 then headerBranch W E t numColumns row context w
                 else (None, w)) of
             (Some err, w1) \<Rightarrow> (Some err, w1)
           | (None, w1) \<Rightarrow>
               (case (if \<not> processHeader \<or> linesRead > 1 then columnBranch W E t numColumns context w1
                      else (None, w1)) of
                  (Some err, w2) \<Rightarrow> (Some err, w2)
                | (None, w2) \<Rightarrow> (None, if linesRead mod 100 = 0 then FlushW W w2 else w2))))"

text \<open>
  The loop: the number of rows read, or the error, with what is left of the input and the
  writer.
\<close>

fun execLoop ::
  "'w CsvWriter \<Rightarrow> Env \<Rightarrow> Transformation \<Rightarrow> int \<Rightarrow> bool \<Rightarrow> int \<Rightarrow> int \<Rightarrow> Reader \<Rightarrow> 'w
     \<Rightarrow> (error + int) \<times> Reader \<times> 'w" where
  "execLoop W E t numColumns processHeader lineLimit linesRead [] w = (Inr linesRead, [], w)"
| "execLoop W E t numColumns processHeader lineLimit linesRead (r # reader) w =
     (if lineLimit > 0 \<and> linesRead \<ge> lineLimit then (Inr linesRead, r # reader, w)
      else
        (case r of
           Inl err \<Rightarrow> (Inl (Error err), reader, w)
         | Inr row \<Rightarrow>
             (case processRow W E t numColumns processHeader (linesRead + 1) row w of
                (Some err, w') \<Rightarrow> (Inl err, reader, w')
              | (None, w') \<Rightarrow>
                  execLoop W E t numColumns processHeader lineLimit (linesRead + 1) reader w')))"

text \<open>
  \<^verbatim>\<open>Execute\<close>: the result or the error, what is left of the input, and the writer, which
  the deferred \<^verbatim>\<open>writer.Flush()\<close> flushes on every return.
\<close>

definition Execute ::
  "'w CsvWriter \<Rightarrow> Env \<Rightarrow> Transformation \<Rightarrow> Reader \<Rightarrow> 'w \<Rightarrow> bool \<Rightarrow> int
     \<Rightarrow> (error + TransformationResult) \<times> Reader \<times> 'w" where
  "Execute W E t reader w processHeader lineLimit =
     (let numColumns = int (length (Columns t)) in
      case ValidateRecipe t of
        Some err \<Rightarrow> (Inl (Error err), reader, FlushW W w)
      | None \<Rightarrow>
          (case execLoop W E t numColumns processHeader lineLimit 0 reader w of
             (Inl err, reader', w') \<Rightarrow> (Inl err, reader', FlushW W w')
           | (Inr linesRead, reader', w') \<Rightarrow>
               (let headerLines = (if processHeader then 1 else 0) in
                (Inr \<lparr>HeaderLines = headerLines, Lines = linesRead - headerLines\<rparr>, reader', FlushW W w'))))"

subsection \<open>An environment and a writer for concrete runs\<close>

text \<open>
  The concrete runs below use ASCII lower-casing, a library whose every function returns the
  concatenation of its arguments without error, and a writer that keeps the rows written.
\<close>

definition asciiLower :: "string \<Rightarrow> string" where
  "asciiLower s =
     map (\<lambda>c. if 65 \<le> (of_char c :: nat) \<and> (of_char c :: nat) \<le> 90 then char_of ((of_char c :: nat) + 32) else c) s"

definition sampleEnv :: Env where
  "sampleEnv =
     \<lparr>ToLower = asciiLower, TypeString = (\<lambda>_. ''Header''), ZeroType = Column,
      Call = (\<lambda>f args. (concat args, None))\<rparr>"

definition listWriter :: "(string list list) CsvWriter" where
  "listWriter = \<lparr>WriteRow = (\<lambda>w row. (None, w @ [row])), FlushW = (\<lambda>w. w)\<rparr>"

definition mkArg :: "DataType \<Rightarrow> string \<Rightarrow> Argument" where
  "mkArg ty v = \<lparr>Type = ty, Value = v\<rparr>"

definition mkOp :: "string \<Rightarrow> Argument list \<Rightarrow> Operation" where
  "mkOp n args = \<lparr>Name = n, Arguments = args\<rparr>"

definition mkRecipe :: "Output \<Rightarrow> Operation list \<Rightarrow> Recipe" where
  "mkRecipe out ops = \<lparr>Output = out, Pipe = ops, Comment = ''''\<rparr>"

text \<open>
  Two transformations of the repository's tests: \<^verbatim>\<open>headers and column recipe, swap columns\<close>
  (\<^verbatim>\<open>!1 <- "col1"\<close>, \<^verbatim>\<open>!2 <- "col2"\<close>, \<^verbatim>\<open>1 <- 2\<close>, \<^verbatim>\<open>2 <- 1\<close>) and
  \<^verbatim>\<open>referencing a header for a column that has no reference is an error\<close>
  (\<^verbatim>\<open>1 <- "hi"\<close>, \<^verbatim>\<open>!3 <- "lala"\<close>).
\<close>

definition columnEntry :: "string \<Rightarrow> Operation list \<Rightarrow> int \<times> Recipe" where
  "columnEntry n ops = (Atoi n, mkRecipe (getOutputForColumn n) ops)"

definition headerEntry :: "string \<Rightarrow> Operation list \<Rightarrow> int \<times> Recipe" where
  "headerEntry n ops = (Atoi n, mkRecipe (getOutputForHeader n) ops)"

definition swapColumns :: Transformation where
  "swapColumns =
     \<lparr>Variables = [],
      Columns = [columnEntry ''1'' [mkOp ''value'' [mkArg Column ''2'']],
                 columnEntry ''2'' [mkOp ''value'' [mkArg Column ''1'']]],
      Headers = [headerEntry ''1'' [mkOp ''value'' [mkArg Literal ''col1'']],
                 headerEntry ''2'' [mkOp ''value'' [mkArg Literal ''col2'']]],
      VariableOrder = []\<rparr>"

definition orphanHeader :: Transformation where
  "orphanHeader =
     \<lparr>Variables = [],
      Columns = [columnEntry ''1'' [mkOp ''value'' [mkArg Literal ''hi'']]],
      Headers = [headerEntry ''3'' [mkOp ''value'' [mkArg Literal ''lala'']]],
      VariableOrder = []\<rparr>"

text \<open>
  The transformation of the test \<^verbatim>\<open>columns are automatically named if not provided in source\<close>
  (\<^verbatim>\<open>1 <- 1\<close>, \<^verbatim>\<open>2 <- 1\<close>, \<^verbatim>\<open>3 <- 1\<close>) with the header recipe \<^verbatim>\<open>!2 <- "apple"\<close> of the
  test \<^verbatim>\<open>header recipe with literals\<close>.
\<close>

definition namedColumns :: Transformation where
  "namedColumns =
     \<lparr>Variables = [],
      Columns = [columnEntry ''1'' [mkOp ''value'' [mkArg Column ''1'']],
                 columnEntry ''2'' [mkOp ''value'' [mkArg Column ''1'']],
                 columnEntry ''3'' [mkOp ''value'' [mkArg Column ''1'']]],
      Headers = [headerEntry ''2'' [mkOp ''value'' [mkArg Literal ''apple'']]],
      VariableOrder = []\<rparr>"

text \<open>
  The calls that build the transformation of the test \<^verbatim>\<open>headers via variables\<close> without its
  header (\<^verbatim>\<open>$foo <- 2\<close>, \<^verbatim>\<open>1 <- $foo\<close>).
\<close>

definition fooCalls :: "BuildCall list" where
  "fooCalls =
     [CallAddOutputToVariable ''$foo'',
      CallAddOperationToVariable ''$foo'' (mkOp ''value'' [mkArg Column ''2'']),
      CallAddOperationByType Column ''1'' (mkOp ''value'' [mkArg Variable ''$foo''])]"

text \<open>The transformation of the test \<^verbatim>\<open>simple 1 <- 1\<close> (\<^verbatim>\<open>!1 <- 1\<close>, \<^verbatim>\<open>1 <- 1\<close>).\<close>

definition echoFirst :: Transformation where
  "echoFirst =
     \<lparr>Variables = [],
      Columns = [columnEntry ''1'' [mkOp ''value'' [mkArg Column ''1'']]],
      Headers = [headerEntry ''1'' [mkOp ''value'' [mkArg Column ''1'']]],
      VariableOrder = []\<rparr>"

subsection \<open>The lowering of a stage of atoms\<close>

text \<open>
  Modelled from the spec: the parser is not in recipe.go. By section 9 of the specification
  a \<^verbatim>\<open>join\<close> whose argument is the placeholder arms \<open>Join\<close> mode for the operation that
  follows it, and this is what makes \<^verbatim>\<open>1 + ?\<close> produce the double concatenation; the
  repository's tests expect \<^verbatim>\<open>abab\<close> for \<^verbatim>\<open>1 + ?\<close>, \<^verbatim>\<open>abababab\<close> for \<^verbatim>\<open>1 + ? + ?\<close> and
  \<^verbatim>\<open>betaalpha\<close> for \<^verbatim>\<open>2 + 1\<close>. So a stage \<^verbatim>\<open>atom1 + atom2 + ... + atomK\<close> lowers to
  \<^verbatim>\<open>value(atom1)\<close> and then, for every \<^verbatim>\<open>+ atom\<close>, to a \<^verbatim>\<open>join\<close> of the placeholder
  followed by \<^verbatim>\<open>value(atom)\<close>. (Section 4.2 words the lowering of \<^verbatim>\<open>+ atom\<close> as one
  \<^verbatim>\<open>join\<close> whose argument is the atom; on the evaluator of recipe.go that gives \<^verbatim>\<open>ab\<close> for
  \<^verbatim>\<open>1 + ?\<close>, which the tests exclude.)
\<close>

fun lowerStage :: "Argument list \<Rightarrow> Operation list" where
  "lowerStage [] = []"
| "lowerStage (a # as) =
     mkOp ''value'' [a] # concat (map (\<lambda>b. [mkOp ''join'' [getPlaceholderArg], mkOp ''value'' [b]]) as)"

subsection \<open>Notions of the specification\<close>

text \<open>
  The failure of the argument resolution of an operation: the error of the first argument
  that fails among those the operation reads (its first argument for \<^verbatim>\<open>value\<close>,
  \<^verbatim>\<open>join\<close>, \<^verbatim>\<open>uppercase\<close> and \<^verbatim>\<open>lowercase\<close>, the padded arguments for the
  operations of \<open>libOps\<close>), if there is one.
\<close>

definition argFailure :: "Env \<Rightarrow> Operation \<Rightarrow> LineContext \<Rightarrow> string \<Rightarrow> string option" where
  "argFailure E op context placeholder =
     (let opName = ToLower E (Name op) in
      if opName \<in> {''value'', ''join'', ''uppercase'', ''lowercase''} then
        (case Arguments op of
           [] \<Rightarrow> None
         | a # _ \<Rightarrow> (case GetValue E a context placeholder of Inl err \<Rightarrow> Some err | Inr _ \<Rightarrow> None))
      else
        (case map_of libOps opName of
           None \<Rightarrow> None
         | Some (numArgs, _) \<Rightarrow>
             (case processArgs E numArgs (Arguments op) context placeholder of
                Inl err \<Rightarrow> Some err
              | Inr _ \<Rightarrow> None)))"

text \<open>
  The field at position \<open>i\<close> of the header row: the value of the header recipe of \<open>i\<close> where
  there is one, else field \<open>i\<close> of the input row, else the text \<^verbatim>\<open>column i\<close>.
\<close>

definition headerField :: "Env \<Rightarrow> Transformation \<Rightarrow> LineContext \<Rightarrow> string list \<Rightarrow> int \<Rightarrow> string" where
  "headerField E t context row i =
     (case map_of (Headers t) i of
        Some r \<Rightarrow> (case processRecipe E ''header'' r context of Inr v \<Rightarrow> v | Inl _ \<Rightarrow> '''')
      | None \<Rightarrow> (if i \<le> int (length row) then row ! nat (i - 1) else ''column '' @ Itoa i))"

text \<open>
  The field at position \<open>i\<close> of a data row: the value of the column recipe of \<open>i\<close>,
  evaluated in the context of the row.
\<close>

definition columnField :: "Env \<Rightarrow> Transformation \<Rightarrow> LineContext \<Rightarrow> int \<Rightarrow> string" where
  "columnField E t context i =
     (case map_of (Columns t) i of
        Some r \<Rightarrow> (case processRecipe E ''column'' r context of Inr v \<Rightarrow> v | Inl _ \<Rightarrow> '''')
      | None \<Rightarrow> '''')"

section \<open>Properties\<close>

subsection \<open>Decimal text\<close>

lemma natToDec_nonempty: "natToDec n \<noteq> []"
  by (subst natToDec.simps) simp

lemma of_char_digitChar: "d < 10 \<Longrightarrow> (of_char (digitChar d) :: nat) = 48 + d"
  by (simp add: digitChar_def)

lemma of_char_digitChar_int: "d < 10 \<Longrightarrow> (of_char (digitChar d) :: int) = 48 + int d"
  using of_char_digitChar [of d] by (metis of_char_of of_nat_add of_nat_numeral of_nat_of_char)

lemma isDigit_digitChar: "d < 10 \<Longrightarrow> isDigit (digitChar d)"
  by (simp add: isDigit_def of_char_digitChar)

lemma natToDec_all_digits: "list_all isDigit (natToDec n)"
  by (induction n rule: natToDec.induct) (subst natToDec.simps, simp add: isDigit_digitChar)

lemma digitsVal_snoc: "digitsVal a (ds @ [c]) = digitsVal a ds * 10 + ((of_char c :: int) - 48)"
  by (simp add: digitsVal_def)

lemma digitsVal_natToDec: "digitsVal 0 (natToDec n) = int n"
proof (induction n rule: natToDec.induct)
  case (1 n)
  show ?case
  proof (cases "n < 10")
    case True
    then show ?thesis
      by (subst natToDec.simps) (simp add: digitsVal_def of_char_digitChar_int)
  next
    case False
    with 1 show ?thesis
      by (subst natToDec.simps) (simp add: digitsVal_snoc of_char_digitChar_int zdiv_int zmod_int)
  qed
qed

lemma digitsVal_Cons: "digitsVal a (c # cs) = digitsVal (a * 10 + ((of_char c :: int) - 48)) cs"
  by (simp add: digitsVal_def)

lemma isDigit_int: "isDigit c \<Longrightarrow> 0 \<le> (of_char c :: int) - 48"
proof -
  assume "isDigit c"
  then have "48 \<le> (of_char c :: nat)" by (simp add: isDigit_def)
  then have "48 \<le> int (of_char c)" by simp
  then show ?thesis by (simp add: of_nat_of_char)
qed

lemma digitsVal_mono: "0 \<le> a \<Longrightarrow> list_all isDigit ds \<Longrightarrow> a \<le> digitsVal a ds"
proof (induction ds arbitrary: a)
  case Nil
  show ?case by (simp add: digitsVal_def)
next
  case (Cons c cs)
  from Cons.prems have dc: "isDigit c" and ds: "list_all isDigit cs"
    by simp_all
  note d = isDigit_int [OF dc]
  from d Cons.prems(1) have s: "a \<le> a * 10 + ((of_char c :: int) - 48)" by simp
  with Cons.prems(1) have "0 \<le> a * 10 + ((of_char c :: int) - 48)" by simp
  from Cons.IH [OF this ds] s show ?case by (simp add: digitsVal_Cons)
qed

lemma parseUint_digits:
  "0 \<le> a \<Longrightarrow> list_all isDigit ds \<Longrightarrow> digitsVal a ds \<le> maxUint64 \<Longrightarrow>
   parseUint a ds = Some (digitsVal a ds)"
proof (induction ds arbitrary: a)
  case Nil
  show ?case by (simp add: digitsVal_def)
next
  case (Cons c cs)
  let ?n1 = "a * 10 + ((of_char c :: int) - 48)"
  from Cons.prems have d: "isDigit c" and ds: "list_all isDigit cs"
    and le: "digitsVal ?n1 cs \<le> maxUint64"
    by (simp_all add: digitsVal_Cons)
  from isDigit_int [OF d] Cons.prems(1) have pos: "0 \<le> ?n1" and ge: "a * 10 \<le> ?n1"
    by simp_all
  from digitsVal_mono [OF pos ds] le have n1: "?n1 \<le> maxUint64" by simp
  with ge have a: "\<not> a \<ge> maxUint64 div 10 + 1"
    by (simp add: maxUint64_def)
  from Cons.IH [OF pos ds le] d n1 a show ?case
    by (simp add: digitsVal_Cons Let_def)
qed

lemma parseUint_natToDec: "int n \<le> maxUint64 \<Longrightarrow> parseUint 0 (natToDec n) = Some (int n)"
  using parseUint_digits [of 0 "natToDec n"] by (simp add: natToDec_all_digits digitsVal_natToDec)

lemma sign_not_digit: "\<not> isDigit CHR ''-''" "\<not> isDigit CHR ''+''"
  by (simp_all add: isDigit_def)

lemma hd_natToDec_no_sign: "hd (natToDec n) \<noteq> CHR ''-''" "hd (natToDec n) \<noteq> CHR ''+''"
proof -
  have "isDigit (hd (natToDec n))"
    using natToDec_all_digits [of n] natToDec_nonempty [of n] by (cases "natToDec n") simp_all
  then show "hd (natToDec n) \<noteq> CHR ''-''" "hd (natToDec n) \<noteq> CHR ''+''"
    using sign_not_digit by auto
qed

text \<open>Reading back the decimal text of a 64-bit integer gives the integer.\<close>

lemma Atoi_Itoa:
  assumes "- (2 ^ 63) \<le> i" and "i < 2 ^ 63"
  shows "Atoi (Itoa i) = i"
proof (cases "i < 0")
  case True
  then have s: "Itoa i = CHR ''-'' # natToDec (nat (- i))"
    by (simp add: Itoa_def)
  from assms True have le: "int (nat (- i)) \<le> 2 ^ 63"
    by simp
  then have "int (nat (- i)) \<le> maxUint64"
    by (simp add: maxUint64_def)
  from parseUint_natToDec [OF this] s le True show ?thesis
    by (simp add: Atoi_def natToDec_nonempty)
next
  case False
  then have s: "Itoa i = natToDec (nat i)"
    by (simp add: Itoa_def)
  from assms False have lt: "int (nat i) < 2 ^ 63"
    by simp
  then have "int (nat i) \<le> maxUint64"
    by (simp add: maxUint64_def)
  from parseUint_natToDec [OF this] s lt False show ?thesis
    by (simp add: Atoi_def natToDec_nonempty hd_natToDec_no_sign)
qed

text \<open>
  A syntax error leaves \<open>0\<close>; a value out of range leaves the nearest bound, also when a
  byte that is no digit follows the digits that leave the range.
\<close>

lemma Atoi_errors:
  "Atoi ''12x'' = 0"
  "Atoi ''-'' = 0"
  "Atoi ''+007'' = 7"
  "Atoi ''9223372036854775808'' = 9223372036854775807"
  "Atoi ''-9223372036854775809'' = - 9223372036854775808"
  "Atoi ''99999999999999999999x'' = 9223372036854775807"
  by code_simp+

subsection \<open>Argument resolution\<close>

text \<open>
  C3. For every 64-bit column number \<open>n\<close>, variable name, literal and placeholder, and every
  context: the argument \<open>Column(n)\<close> (its value the decimal text of \<open>n\<close>) evaluates to the
  context's column \<open>n\<close>, and fails with exactly
  \<^verbatim>\<open>column N referenced, but it does not exist in the input\<close> when the context has no
  column \<open>n\<close>; a \<open>Variable\<close> argument evaluates to the variable's value and fails with exactly
  \<^verbatim>\<open>variable 'name' referenced, but it is not defined\<close> when it is unbound; a \<open>Literal\<close>
  argument evaluates to its stored string and a \<open>Placeholder\<close> argument to the current
  placeholder, and neither fails.
\<close>

theorem GetValue_by_type:
  assumes "- (2 ^ 63) \<le> n" and "n < 2 ^ 63"
  shows "GetValue E \<lparr>Type = Column, Value = Itoa n\<rparr> context placeholder =
           (case CtxColumns context n of
              Some v \<Rightarrow> Inr v
            | None \<Rightarrow> Inl (''column '' @ Itoa n @ '' referenced, but it does not exist in the input''))
       \<and> GetValue E \<lparr>Type = Variable, Value = name\<rparr> context placeholder =
           (case CtxVariables context name of
              Some v \<Rightarrow> Inr v
            | None \<Rightarrow> Inl (''variable '' @ [CHR 0x27] @ name @ [CHR 0x27] @ '' referenced, but it is not defined''))
       \<and> GetValue E \<lparr>Type = Literal, Value = s\<rparr> context placeholder = Inr s
       \<and> GetValue E \<lparr>Type = Placeholder, Value = q\<rparr> context placeholder = Inr placeholder"
  using Atoi_Itoa [OF assms]
  by (simp add: GetValue_def split: option.splits)

theorem GetValue_by_type_witness:
  "- (2 ^ 63) \<le> (3::int) \<and> (3::int) < 2 ^ 63
   \<and> GetValue sampleEnv \<lparr>Type = Column, Value = Itoa 3\<rparr>
        \<lparr>CtxVariables = Map.empty, CtxColumns = [3 \<mapsto> ''x''], LineNo = 1\<rparr> ''p'' = Inr ''x''
   \<and> GetValue sampleEnv \<lparr>Type = Column, Value = Itoa 3\<rparr>
        \<lparr>CtxVariables = Map.empty, CtxColumns = Map.empty, LineNo = 1\<rparr> ''p''
      = Inl (''column '' @ Itoa 3 @ '' referenced, but it does not exist in the input'')
   \<and> GetValue sampleEnv \<lparr>Type = Variable, Value = ''$v''\<rparr>
        \<lparr>CtxVariables = Map.empty, CtxColumns = Map.empty, LineNo = 1\<rparr> ''p''
      = Inl ''variable '$v' referenced, but it is not defined''"
  using GetValue_by_type [of 3 sampleEnv "\<lparr>CtxVariables = Map.empty, CtxColumns = [3 \<mapsto> ''x''], LineNo = 1\<rparr>" "''p''" "''$v''"]
    GetValue_by_type [of 3 sampleEnv "\<lparr>CtxVariables = Map.empty, CtxColumns = Map.empty, LineNo = 1\<rparr>" "''p''" "''$v''"]
  by simp

subsection \<open>One operation of a pipeline\<close>

lemma combine_Join: "combine Join ph v = (ph @ v, Replace)"
  by (simp add: combine_def)

lemma combine_Replace: "combine Replace ph v = (v, Replace)"
  by (simp add: combine_def)

lemma Atoi_one: "Atoi ''1'' = 1"
  by code_simp

lemma runPipe_append:
  "runPipe E pre ctx (xs @ ys) st =
     (case runPipe E pre ctx xs st of Inl e \<Rightarrow> Inl e | Inr st' \<Rightarrow> runPipe E pre ctx ys st')"
  by (induction xs arbitrary: st) (auto split: sum.splits)

lemma libOps_names:
  "map_of libOps n = Some x \<Longrightarrow>
   n \<notin> {''value'', ''join'', ''uppercase'', ''lowercase'', ''lineno'', ''today'', ''now''}"
  by (auto simp: libOps_def split: if_splits)

lemma processOp_join_placeholder:
  "ToLower E (Name op) = ''join'' \<Longrightarrow> Arguments op = a # as \<Longrightarrow> Type a = Placeholder \<Longrightarrow>
   processOp E pre ctx (ph, m) op = Inr (ph, Join)"
  by (simp add: processOp_def GetValue_def)

lemma processOp_in_Join_mode:
  assumes "ToLower E (Name op) \<noteq> ''join''"
    and "processOp E pre ctx (ph, Replace) op = Inr (v, m')"
  shows "processOp E pre ctx (ph, Join) op = Inr (ph @ v, Replace)"
  using assms
  by (auto simp: processOp_def Let_def combine_def
      split: if_splits list.splits sum.splits option.splits prod.splits)

lemma processOp_argFailure:
  assumes "argFailure E op ctx ph = Some u"
  shows "processOp E pre ctx (ph, m) op =
      Inl (Error (pre @ '' '' @
         (if ToLower E (Name op) \<in> {''value'', ''join''} then u
          else ToLower E (Name op) @ ''(): error evaluating arg: '' @ u)))"
proof (cases "ToLower E (Name op) \<in> {''value'', ''join'', ''uppercase'', ''lowercase''}")
  case True
  with assms show ?thesis
    by (auto simp: argFailure_def processOp_def Let_def split: list.splits sum.splits)
next
  case False
  with assms obtain n f k c where lk: "map_of libOps (ToLower E (Name op)) = Some (n, f, k, c)"
      and pa: "processArgs E n (Arguments op) ctx ph = Inl u"
    by (auto simp: argFailure_def Let_def split: option.splits sum.splits)
  from libOps_names [OF lk] lk pa show ?thesis
    by (simp add: processOp_def Let_def)
qed

subsection \<open>A join of the placeholder\<close>

lemma processOp_join_value:
  "ToLower E (Name op) = ''join'' \<Longrightarrow> Arguments op = b # bs \<Longrightarrow> Type b \<noteq> Placeholder \<Longrightarrow>
   GetValue E b ctx ph = Inr v \<Longrightarrow> processOp E pre ctx (ph, m) op = Inr (ph @ v, Replace)"
  by (simp add: processOp_def combine_def)

text \<open>
  The lowering above gives what the repository's tests
  \<^verbatim>\<open>double header using placeholder concatenation\<close>,
  \<^verbatim>\<open>quad header using placeholder concatenation\<close> and
  \<^verbatim>\<open>double join flip flop headers\<close> expect.
\<close>

lemma lowerStage_tests:
  "processRecipe sampleEnv ''header''
     (mkRecipe (getOutputForHeader ''1'') (lowerStage [mkArg Column ''1'', mkArg Placeholder ''?'']))
     \<lparr>CtxVariables = Map.empty, CtxColumns = loadColumns [''ab'', ''c''], LineNo = 1\<rparr> = Inr ''abab''"
  "processRecipe sampleEnv ''header''
     (mkRecipe (getOutputForHeader ''1'')
        (lowerStage [mkArg Column ''1'', mkArg Placeholder ''?'', mkArg Placeholder ''?'']))
     \<lparr>CtxVariables = Map.empty, CtxColumns = loadColumns [''ab'', ''c''], LineNo = 1\<rparr> = Inr ''abababab''"
  "processRecipe sampleEnv ''header''
     (mkRecipe (getOutputForHeader ''1'') (lowerStage [mkArg Column ''2'', mkArg Column ''1'']))
     \<lparr>CtxVariables = Map.empty, CtxColumns = loadColumns [''alpha'', ''beta''], LineNo = 1\<rparr> = Inr ''betaalpha''"
  by code_simp+

text \<open>
  C1, as the claim states it, fails where the operation after a join of the placeholder is
  again a join of the placeholder: in the pipe \<^verbatim>\<open>value("a")\<close>, \<^verbatim>\<open>join(?)\<close>, \<^verbatim>\<open>join(?)\<close>
  the value of the second join is computed (it is the placeholder \<^verbatim>\<open>a\<close>) and is not
  appended; the pipe evaluates to \<^verbatim>\<open>a\<close>, not to \<^verbatim>\<open>aa\<close>.
\<close>

theorem join_placeholder_counterexample:
  "GetValue sampleEnv (mkArg Placeholder ''?'')
     \<lparr>CtxVariables = Map.empty, CtxColumns = Map.empty, LineNo = 1\<rparr> ''a'' = Inr ''a''
   \<and> processRecipe sampleEnv ''column''
     (mkRecipe (getOutputForColumn ''1'')
        [mkOp ''value'' [mkArg Literal ''a''], mkOp ''join'' [mkArg Placeholder ''?''],
         mkOp ''join'' [mkArg Placeholder ''?'']])
     \<lparr>CtxVariables = Map.empty, CtxColumns = Map.empty, LineNo = 1\<rparr>
     = Inr ''a''
   \<and> processRecipe sampleEnv ''column''
     (mkRecipe (getOutputForColumn ''1'')
        [mkOp ''value'' [mkArg Literal ''a''], mkOp ''join'' [mkArg Placeholder ''?''],
         mkOp ''join'' [mkArg Placeholder ''?'']])
     \<lparr>CtxVariables = Map.empty, CtxColumns = Map.empty, LineNo = 1\<rparr>
     \<noteq> Inr ''aa''"
  by code_simp

text \<open>
  C1, amended. In every pipeline, a \<^verbatim>\<open>join\<close> whose argument is a \<open>Placeholder\<close> leaves the
  running placeholder as it is, sets the mode to \<open>Join\<close> and skips the mode combination, so
  that the mode is still \<open>Join\<close> when the value of the next operation is computed; unless
  that operation is again a \<^verbatim>\<open>join\<close> of a \<open>Placeholder\<close>, its value is appended to the
  running placeholder (where in mode \<open>Replace\<close> it would replace it), the mode returns to
  \<open>Replace\<close> and the pipeline goes on from there. In particular the recipe whose single
  stage is \<^verbatim>\<open>1 + ?\<close>, evaluated against a row whose column 1 holds \<open>s\<close>, yields \<open>s\<close>
  doubled.
\<close>

theorem join_placeholder_defers:
  assumes "ToLower E ''value'' = ''value''" and "ToLower E ''join'' = ''join''"
    and "ToLower E (Name j) = ''join''" and "Arguments j = a # as" and "Type a = Placeholder"
  shows "processOp E pre ctx (ph, m) j = Inr (ph, Join)
       \<and> (ToLower E (Name op1) \<noteq> ''join'' \<and> processOp E pre ctx (ph, Replace) op1 = Inr (v1, m1)
            \<longrightarrow> runPipe E pre ctx (j # op1 # rest) (ph, m) = runPipe E pre ctx rest (ph @ v1, Replace))
       \<and> (ToLower E (Name op2) = ''join'' \<and> Arguments op2 = b # bs \<and> Type b \<noteq> Placeholder
              \<and> GetValue E b ctx ph = Inr v2
            \<longrightarrow> runPipe E pre ctx (j # op2 # rest) (ph, m) = runPipe E pre ctx rest (ph @ v2, Replace))
       \<and> (CtxColumns ctx 1 = Some s
            \<longrightarrow> processRecipe E rt
                  (mkRecipe out (lowerStage [mkArg Column ''1'', mkArg Placeholder ''?''])) ctx
                = Inr (s @ s))"
proof (intro conjI impI)
  show d: "processOp E pre ctx (ph, m) j = Inr (ph, Join)"
    using assms(3-5) by (rule processOp_join_placeholder)
  show "runPipe E pre ctx (j # op1 # rest) (ph, m) = runPipe E pre ctx rest (ph @ v1, Replace)"
    if "ToLower E (Name op1) \<noteq> ''join'' \<and> processOp E pre ctx (ph, Replace) op1 = Inr (v1, m1)"
    using that d by (simp add: processOp_in_Join_mode)
  show "runPipe E pre ctx (j # op2 # rest) (ph, m) = runPipe E pre ctx rest (ph @ v2, Replace)"
    if "ToLower E (Name op2) = ''join'' \<and> Arguments op2 = b # bs \<and> Type b \<noteq> Placeholder
          \<and> GetValue E b ctx ph = Inr v2"
    using that d by (simp add: processOp_join_value)
  show "processRecipe E rt
          (mkRecipe out (lowerStage [mkArg Column ''1'', mkArg Placeholder ''?''])) ctx = Inr (s @ s)"
    if "CtxColumns ctx 1 = Some s"
    using that assms(1,2)
    by (simp add: processRecipe_def mkRecipe_def mkOp_def mkArg_def getPlaceholderArg_def
        processOp_def GetValue_def Atoi_one combine_def)
qed

theorem join_placeholder_defers_witness:
  "ToLower sampleEnv ''value'' = ''value'' \<and> ToLower sampleEnv ''join'' = ''join''
   \<and> ToLower sampleEnv (Name (mkOp ''Join'' [mkArg Placeholder ''?''])) = ''join''
   \<and> Arguments (mkOp ''Join'' [mkArg Placeholder ''?'']) = mkArg Placeholder ''?'' # []
   \<and> Type (mkArg Placeholder ''?'') = Placeholder
   \<and> processOp sampleEnv ''p:'' \<lparr>CtxVariables = Map.empty, CtxColumns = [1 \<mapsto> ''ab''], LineNo = 1\<rparr>
        (''ab'', Replace) (mkOp ''Join'' [mkArg Placeholder ''?'']) = Inr (''ab'', Join)
   \<and> ToLower sampleEnv (Name (mkOp ''value'' [mkArg Literal ''x''])) \<noteq> ''join''
   \<and> processOp sampleEnv ''p:'' \<lparr>CtxVariables = Map.empty, CtxColumns = [1 \<mapsto> ''ab''], LineNo = 1\<rparr>
        (''ab'', Replace) (mkOp ''value'' [mkArg Literal ''x'']) = Inr (''x'', Replace)
   \<and> runPipe sampleEnv ''p:'' \<lparr>CtxVariables = Map.empty, CtxColumns = [1 \<mapsto> ''ab''], LineNo = 1\<rparr>
        [mkOp ''Join'' [mkArg Placeholder ''?''], mkOp ''value'' [mkArg Literal ''x'']] (''ab'', Replace)
       = Inr (''abx'', Replace)
   \<and> ToLower sampleEnv (Name (mkOp ''join'' [mkArg Column ''1''])) = ''join''
   \<and> Arguments (mkOp ''join'' [mkArg Column ''1'']) = mkArg Column ''1'' # []
   \<and> Type (mkArg Column ''1'') \<noteq> Placeholder
   \<and> GetValue sampleEnv (mkArg Column ''1'')
        \<lparr>CtxVariables = Map.empty, CtxColumns = [1 \<mapsto> ''ab''], LineNo = 1\<rparr> ''ab'' = Inr ''ab''
   \<and> runPipe sampleEnv ''p:'' \<lparr>CtxVariables = Map.empty, CtxColumns = [1 \<mapsto> ''ab''], LineNo = 1\<rparr>
        [mkOp ''Join'' [mkArg Placeholder ''?''], mkOp ''join'' [mkArg Column ''1'']] (''ab'', Replace)
       = Inr (''abab'', Replace)
   \<and> CtxColumns \<lparr>CtxVariables = Map.empty, CtxColumns = [1 \<mapsto> ''ab''], LineNo = 1\<rparr> 1 = Some ''ab''
   \<and> processRecipe sampleEnv ''header''
        (mkRecipe (getOutputForHeader ''1'') (lowerStage [mkArg Column ''1'', mkArg Placeholder ''?'']))
        \<lparr>CtxVariables = Map.empty, CtxColumns = [1 \<mapsto> ''ab''], LineNo = 1\<rparr> = Inr ''abab''"
proof -
  let ?ctx = "\<lparr>CtxVariables = Map.empty, CtxColumns = [1 \<mapsto> ''ab''], LineNo = 1\<rparr>"
  let ?j = "mkOp ''Join'' [mkArg Placeholder ''?'']"
  let ?op1 = "mkOp ''value'' [mkArg Literal ''x'']"
  let ?op2 = "mkOp ''join'' [mkArg Column ''1'']"
  have l1: "ToLower sampleEnv ''value'' = ''value''" and l2: "ToLower sampleEnv ''join'' = ''join''"
    by code_simp+
  have j1: "ToLower sampleEnv (Name ?j) = ''join''"
    by code_simp
  have j2: "Arguments ?j = mkArg Placeholder ''?'' # []"
    by (simp add: mkOp_def)
  have j3: "Type (mkArg Placeholder ''?'') = Placeholder"
    by (simp add: mkArg_def)
  have n1: "ToLower sampleEnv (Name ?op1) \<noteq> ''join''"
    by code_simp
  have r1: "processOp sampleEnv ''p:'' ?ctx (''ab'', Replace) ?op1 = Inr (''x'', Replace)"
    by code_simp
  have n2: "ToLower sampleEnv (Name ?op2) = ''join''"
    by code_simp
  have a2: "Arguments ?op2 = mkArg Column ''1'' # []"
    by (simp add: mkOp_def)
  have t2: "Type (mkArg Column ''1'') \<noteq> Placeholder"
    by (simp add: mkArg_def)
  have g2: "GetValue sampleEnv (mkArg Column ''1'') ?ctx ''ab'' = Inr ''ab''"
    by (simp add: GetValue_def mkArg_def Atoi_one)
  have c: "CtxColumns ?ctx 1 = Some ''ab''"
    by simp
  note w = join_placeholder_defers [OF l1 l2 j1 j2 j3, where pre = "''p:''" and ctx = ?ctx
      and ph = "''ab''" and m = Replace and ?op1.0 = ?op1 and ?v1.0 = "''x''" and ?m1.0 = Replace
      and ?op2.0 = ?op2 and b = "mkArg Column ''1''" and bs = "[]" and ?v2.0 = "''ab''"
      and rest = "[]" and s = "''ab''" and rt = "''header''" and out = "getOutputForHeader ''1''"]
  have w1: "processOp sampleEnv ''p:'' ?ctx (''ab'', Replace) ?j = Inr (''ab'', Join)"
    by (rule w [THEN conjunct1])
  have "runPipe sampleEnv ''p:'' ?ctx [?j, ?op1] (''ab'', Replace)
          = runPipe sampleEnv ''p:'' ?ctx [] (''ab'' @ ''x'', Replace)"
    by (rule w [THEN conjunct2, THEN conjunct1, rule_format, OF conjI [OF n1 r1]])
  also have "\<dots> = Inr (''abx'', Replace)"
    by simp
  finally have w2: "runPipe sampleEnv ''p:'' ?ctx [?j, ?op1] (''ab'', Replace) = Inr (''abx'', Replace)" .
  have "runPipe sampleEnv ''p:'' ?ctx [?j, ?op2] (''ab'', Replace)
          = runPipe sampleEnv ''p:'' ?ctx [] (''ab'' @ ''ab'', Replace)"
    by (rule w [THEN conjunct2, THEN conjunct2, THEN conjunct1, rule_format,
          OF conjI [OF n2 conjI [OF a2 conjI [OF t2 g2]]]])
  also have "\<dots> = Inr (''abab'', Replace)"
    by simp
  finally have w3: "runPipe sampleEnv ''p:'' ?ctx [?j, ?op2] (''ab'', Replace) = Inr (''abab'', Replace)" .
  have "processRecipe sampleEnv ''header''
        (mkRecipe (getOutputForHeader ''1'') (lowerStage [mkArg Column ''1'', mkArg Placeholder ''?'']))
        ?ctx = Inr (''ab'' @ ''ab'')"
    by (rule w [THEN conjunct2, THEN conjunct2, THEN conjunct2, rule_format, OF c])
  then have w4: "processRecipe sampleEnv ''header''
        (mkRecipe (getOutputForHeader ''1'') (lowerStage [mkArg Column ''1'', mkArg Placeholder ''?'']))
        ?ctx = Inr ''abab''"
    by (simp del: lowerStage.simps)
  from l1 l2 j1 j2 j3 w1 n1 r1 w2 n2 a2 t2 g2 w3 c w4 show ?thesis
    by blast
qed

subsection \<open>Padding of the argument list\<close>

text \<open>
  The operations of \<open>libOps\<close> read their arguments through \<^verbatim>\<open>processArgs\<close>, which pads:
  on success there are as many values as the operation asked for, and the values of an
  empty argument list are all the current placeholder.
\<close>

lemma getValues_length: "getValues E as ctx ph = Inr vs \<Longrightarrow> length vs = length as"
  by (induction as arbitrary: vs) (auto split: sum.splits)

lemma processArgs_length: "processArgs E n args ctx ph = Inr vs \<Longrightarrow> length vs = n"
  by (auto simp: processArgs_def padArgs_def dest!: getValues_length)

lemma getValues_placeholders: "getValues E (replicate n getPlaceholderArg) ctx ph = Inr (replicate n ph)"
  by (induction n) (simp_all add: GetValue_def getPlaceholderArg_def)

lemma processArgs_empty: "processArgs E n [] ctx ph = Inr (replicate n ph)"
  by (simp add: processArgs_def padArgs_def getValues_placeholders)

text \<open>
  C2. The claim is that the evaluator pads the argument list of every operation before it
  reads an argument, so that no evaluation reads beyond the list. The code does so for
  the operations that go through \<^verbatim>\<open>processArgs\<close>; the cases \<^verbatim>\<open>value\<close>, \<^verbatim>\<open>join\<close>,
  \<^verbatim>\<open>uppercase\<close> and \<^verbatim>\<open>lowercase\<close> read \<^verbatim>\<open>o.Arguments[0]\<close> of the list as supplied:
  wherever a pipeline reaches one of these four operations with an empty argument list, the
  evaluation panics with an index out of range.
\<close>

theorem bare_operation_index_panic:
  assumes "Pipe r = ops1 @ op # ops2"
    and "runPipe E (errorPrefix rt r ctx) ctx ops1 ('''', Replace) = Inr st"
    and "ToLower E (Name op) \<in> {''value'', ''join'', ''uppercase'', ''lowercase''}"
    and "Arguments op = []"
  shows "processRecipe E rt r ctx = Inl IndexPanic"
proof -
  have "processOp E (errorPrefix rt r ctx) ctx st op = Inl IndexPanic"
    using assms(3,4) by (auto simp: processOp_def Let_def)
  then show ?thesis
    using assms(1,2) by (simp add: processRecipe_def runPipe_append)
qed

theorem bare_operation_index_panic_witness:
  "Pipe (mkRecipe (getOutputForColumn ''1'') [mkOp ''value'' [mkArg Column ''1''], mkOp ''uppercase'' []])
     = [mkOp ''value'' [mkArg Column ''1'']] @ mkOp ''uppercase'' [] # []
   \<and> ToLower sampleEnv (Name (mkOp ''uppercase'' [])) \<in> {''value'', ''join'', ''uppercase'', ''lowercase''}
   \<and> Arguments (mkOp ''uppercase'' []) = []
   \<and> processRecipe sampleEnv ''column''
        (mkRecipe (getOutputForColumn ''1'') [mkOp ''value'' [mkArg Column ''1''], mkOp ''uppercase'' []])
        \<lparr>CtxVariables = Map.empty, CtxColumns = loadColumns [''apple''], LineNo = 2\<rparr>
      = Inl IndexPanic"
proof -
  let ?r = "mkRecipe (getOutputForColumn ''1'') [mkOp ''value'' [mkArg Column ''1''], mkOp ''uppercase'' []]"
  let ?ctx = "\<lparr>CtxVariables = Map.empty, CtxColumns = loadColumns [''apple''], LineNo = 2\<rparr>"
  have p: "Pipe ?r = [mkOp ''value'' [mkArg Column ''1'']] @ mkOp ''uppercase'' [] # []"
    by (simp add: mkRecipe_def)
  have s: "runPipe sampleEnv (errorPrefix ''column'' ?r ?ctx) ?ctx [mkOp ''value'' [mkArg Column ''1'']]
             ('''', Replace) = Inr (''apple'', Replace)"
    by code_simp
  have n: "ToLower sampleEnv (Name (mkOp ''uppercase'' [])) \<in> {''value'', ''join'', ''uppercase'', ''lowercase''}"
    by code_simp
  have a: "Arguments (mkOp ''uppercase'' []) = []"
    by (simp add: mkOp_def)
  from bare_operation_index_panic [OF p s n a] p n a show ?thesis
    by simp
qed

subsection \<open>Errors of argument resolution\<close>

text \<open>
  C6, as the claim states it, fails for \<^verbatim>\<open>value\<close> and \<^verbatim>\<open>join\<close>: the pipe
  \<^verbatim>\<open>value(1)\<close>, \<^verbatim>\<open>join(3)\<close> of column 1 on the row \<^verbatim>\<open>a,b\<close> fails in the argument of
  \<^verbatim>\<open>join\<close>, and the error carries no \<^verbatim>\<open>join(): error evaluating arg:\<close>.
\<close>

theorem join_arg_error_counterexample:
  "argFailure sampleEnv (mkOp ''join'' [mkArg Column ''3''])
     \<lparr>CtxVariables = Map.empty, CtxColumns = loadColumns [''a'', ''b''], LineNo = 1\<rparr> ''a''
     = Some ''column 3 referenced, but it does not exist in the input''
   \<and> processRecipe sampleEnv ''column''
       (mkRecipe (getOutputForColumn ''1'') [mkOp ''value'' [mkArg Column ''1''], mkOp ''join'' [mkArg Column ''3'']])
       \<lparr>CtxVariables = Map.empty, CtxColumns = loadColumns [''a'', ''b''], LineNo = 1\<rparr>
     = Inl (Error ''line 1 / column 1: column 3 referenced, but it does not exist in the input'')
   \<and> processRecipe sampleEnv ''column''
       (mkRecipe (getOutputForColumn ''1'') [mkOp ''value'' [mkArg Column ''1''], mkOp ''join'' [mkArg Column ''3'']])
       \<lparr>CtxVariables = Map.empty, CtxColumns = loadColumns [''a'', ''b''], LineNo = 1\<rparr>
     \<noteq> Inl (Error ''line 1 / column 1: join(): error evaluating arg: column 3 referenced, but it does not exist in the input'')"
  by code_simp

text \<open>
  C6, amended. Where the operations before it succeed and the argument resolution of an
  operation fails with the error \<open>u\<close>, the evaluator returns exactly
  \<^verbatim>\<open>line L / <kind> <target>: NAME(): error evaluating arg: u\<close>, with \<open>NAME\<close> the lower-cased
  operation name and \<open>kind\<close> the type of recipe being run, for every operation but
  \<^verbatim>\<open>value\<close> and \<^verbatim>\<open>join\<close>; for these two it returns exactly
  \<^verbatim>\<open>line L / <kind> <target>: u\<close>.
\<close>

theorem processRecipe_arg_error:
  assumes "Pipe r = ops1 @ op # ops2"
    and "runPipe E (errorPrefix rt r ctx) ctx ops1 ('''', Replace) = Inr (ph, m)"
    and "argFailure E op ctx ph = Some u"
  shows "processRecipe E rt r ctx =
     Inl (Error (''line '' @ Itoa (LineNo ctx) @ '' / '' @ rt @ '' '' @ OValue (Output r) @ '': '' @
        (if ToLower E (Name op) \<in> {''value'', ''join''} then u
         else ToLower E (Name op) @ ''(): error evaluating arg: '' @ u)))"
  using assms(1,2) processOp_argFailure [OF assms(3), of "errorPrefix rt r ctx" m]
  by (simp add: processRecipe_def runPipe_append errorPrefix_def)

theorem processRecipe_arg_error_witness:
  "Pipe (mkRecipe (getOutputForColumn ''1'') [mkOp ''value'' [mkArg Column ''1''], mkOp ''Trim'' [mkArg Variable ''$foo'']])
     = [mkOp ''value'' [mkArg Column ''1'']] @ mkOp ''Trim'' [mkArg Variable ''$foo''] # []
   \<and> argFailure sampleEnv (mkOp ''Trim'' [mkArg Variable ''$foo''])
        \<lparr>CtxVariables = Map.empty, CtxColumns = loadColumns [''a'', ''b''], LineNo = 1\<rparr> ''a''
      = Some ''variable '$foo' referenced, but it is not defined''
   \<and> processRecipe sampleEnv ''column''
        (mkRecipe (getOutputForColumn ''1'') [mkOp ''value'' [mkArg Column ''1''], mkOp ''Trim'' [mkArg Variable ''$foo'']])
        \<lparr>CtxVariables = Map.empty, CtxColumns = loadColumns [''a'', ''b''], LineNo = 1\<rparr>
      = Inl (Error ''line 1 / column 1: trim(): error evaluating arg: variable '$foo' referenced, but it is not defined'')"
proof -
  let ?op = "mkOp ''Trim'' [mkArg Variable ''$foo'']"
  let ?r = "mkRecipe (getOutputForColumn ''1'') [mkOp ''value'' [mkArg Column ''1''], ?op]"
  let ?ctx = "\<lparr>CtxVariables = Map.empty, CtxColumns = loadColumns [''a'', ''b''], LineNo = 1\<rparr>"
  have p: "Pipe ?r = [mkOp ''value'' [mkArg Column ''1'']] @ ?op # []"
    by (simp add: mkRecipe_def)
  have s: "runPipe sampleEnv (errorPrefix ''column'' ?r ?ctx) ?ctx [mkOp ''value'' [mkArg Column ''1'']]
             ('''', Replace) = Inr (''a'', Replace)"
    by code_simp
  have f: "argFailure sampleEnv ?op ?ctx ''a'' = Some ''variable '$foo' referenced, but it is not defined''"
    by code_simp
  have n: "ToLower sampleEnv (Name ?op) = ''trim''"
    by code_simp
  have l: "Itoa (LineNo ?ctx) = ''1''"
    by code_simp
  have v: "OValue (Output ?r) = ''1''"
    by (simp add: mkRecipe_def getOutputForColumn_def)
  from processRecipe_arg_error [OF p s f] p f n l v show ?thesis
    by simp
qed

subsection \<open>Validation\<close>

lemma ValidateRecipe_None_iff:
  "ValidateRecipe t = None \<longleftrightarrow>
     Columns t \<noteq> [] \<and> (\<forall>c\<in>{1..int (length (Columns t))}. map_of (Columns t) c \<noteq> None)
       \<and> (\<forall>h\<in>fst ` set (Headers t). map_of (Columns t) h \<noteq> None)"
proof -
  have a: "find (\<lambda>c. map_of (Columns t) c = None) [1..int (length (Columns t))] = None
             \<longleftrightarrow> (\<forall>c\<in>{1..int (length (Columns t))}. map_of (Columns t) c \<noteq> None)"
    by (auto simp: find_None_iff)
  have b: "find (\<lambda>h. map_of (Columns t) h = None) (map fst (Headers t)) = None
             \<longleftrightarrow> (\<forall>h\<in>fst ` set (Headers t). map_of (Columns t) h \<noteq> None)"
    by (force simp: find_None_iff)
  show ?thesis
    unfolding a [symmetric] b [symmetric]
    by (simp add: ValidateRecipe_def Let_def split: option.splits)
qed

text \<open>
  C4. Validation returns an error if and only if there is no column recipe, or some index in
  \<open>1..|columns|\<close> has no column recipe, or some header index has no column recipe. Execute
  validates before it reads: on a validation error it returns that error with the whole
  input unread and nothing written (the writer is only flushed).
\<close>

theorem ValidateRecipe_errors:
  "(ValidateRecipe t \<noteq> None \<longleftrightarrow>
      Columns t = [] \<or> (\<exists>c\<in>{1..int (length (Columns t))}. map_of (Columns t) c = None)
        \<or> (\<exists>h\<in>fst ` set (Headers t). map_of (Columns t) h = None))
   \<and> (ValidateRecipe t = Some err \<longrightarrow>
        Execute W E t reader w processHeader lineLimit = (Inl (Error err), reader, FlushW W w))"
proof
  show "ValidateRecipe t \<noteq> None \<longleftrightarrow>
      Columns t = [] \<or> (\<exists>c\<in>{1..int (length (Columns t))}. map_of (Columns t) c = None)
        \<or> (\<exists>h\<in>fst ` set (Headers t). map_of (Columns t) h = None)"
    by (simp add: ValidateRecipe_None_iff)
  show "ValidateRecipe t = Some err \<longrightarrow>
        Execute W E t reader w processHeader lineLimit = (Inl (Error err), reader, FlushW W w)"
    by (simp add: Execute_def)
qed

theorem ValidateRecipe_errors_witness:
  "ValidateRecipe orphanHeader = Some ''found header for column 3, but no recipe for column 3''
   \<and> Execute listWriter sampleEnv orphanHeader [Inr [''a'', ''b'']] [] True (- 1)
       = (Inl (Error ''found header for column 3, but no recipe for column 3''), [Inr [''a'', ''b'']], [])"
proof -
  have v: "ValidateRecipe orphanHeader = Some ''found header for column 3, but no recipe for column 3''"
    by code_simp
  from ValidateRecipe_errors [of orphanHeader "''found header for column 3, but no recipe for column 3''"
      listWriter sampleEnv "[Inr [''a'', ''b'']]" "[]" True "- 1"] v
  show ?thesis
    by (simp add: listWriter_def)
qed

subsection \<open>The result of \<^verbatim>\<open>Execute\<close>\<close>

lemma execLoop_count:
  "execLoop W E t N ph limit n reader w = (Inr m, reader', w') \<Longrightarrow>
     m = n + int (length reader) - int (length reader')"
proof (induction reader arbitrary: n w)
  case Nil
  then show ?case by simp
next
  case (Cons r reader)
  show ?case
    using Cons.prems
    by (auto split: if_splits sum.splits prod.splits option.splits dest!: Cons.IH)
qed

text \<open>
  C7. Where Execute returns a result, its header_lines is 1 when header processing is enabled
  and 0 otherwise, and its data_lines is the number of rows read from the input (the rows
  of the input that are no longer there) minus header_lines.
\<close>

theorem Execute_result_counts:
  assumes "Execute W E t reader w processHeader lineLimit = (Inr res, reader', w')"
  shows "HeaderLines res = (if processHeader then 1 else 0)
       \<and> Lines res = (int (length reader) - int (length reader')) - HeaderLines res"
  using assms
  by (auto simp: Execute_def Let_def split: option.splits sum.splits prod.splits
      dest!: execLoop_count)

theorem Execute_result_counts_witness:
  "Execute listWriter sampleEnv swapColumns
      [Inr [''first'', ''last''], Inr [''a'', ''b''], Inr [''c'', ''d''], Inr [''e'', ''f'']] [] True 3
     = (Inr \<lparr>HeaderLines = 1, Lines = 2\<rparr>, [Inr [''e'', ''f'']],
        [[''col1'', ''col2''], [''b'', ''a''], [''d'', ''c'']])
   \<and> HeaderLines \<lparr>HeaderLines = 1, Lines = 2\<rparr> = (if True then 1 else 0)
   \<and> Lines \<lparr>HeaderLines = 1, Lines = 2\<rparr>
       = (int (length [Inr [''first'', ''last''], Inr [''a'', ''b''], Inr [''c'', ''d''], Inr [''e'', ''f'' :: string] :: string + string list])
          - int (length [Inr [''e'', ''f'' :: string] :: string + string list]))
         - HeaderLines \<lparr>HeaderLines = 1, Lines = 2\<rparr>"
proof -
  have e: "Execute listWriter sampleEnv swapColumns
      [Inr [''first'', ''last''], Inr [''a'', ''b''], Inr [''c'', ''d''], Inr [''e'', ''f'']] [] True 3
     = (Inr \<lparr>HeaderLines = 1, Lines = 2\<rparr>, [Inr [''e'', ''f'']],
        [[''col1'', ''col2''], [''b'', ''a''], [''d'', ''c'']])"
    by code_simp
  from Execute_result_counts [OF e] e show ?thesis
    by simp
qed

text \<open>
  C10, as the claim states it, fails: Execute validates first, and with header processing
  enabled and an input of zero rows a transformation without column recipes makes it return
  the validation error.
\<close>

theorem Execute_no_rows_counterexample:
  "Execute listWriter sampleEnv NewTransformation [] [] True (- 1)
     = (Inl (Error ''no column recipes provided''), [], [])"
  by code_simp

text \<open>
  C10, amended. For a transformation that passes validation, with header processing enabled
  and an input of zero rows, Execute succeeds, writes no row (the writer is only flushed)
  and returns a result with HeaderLines = 1 and Lines = -1.
\<close>

theorem Execute_no_rows:
  assumes "ValidateRecipe t = None"
  shows "Execute W E t [] w True lineLimit = (Inr \<lparr>HeaderLines = 1, Lines = - 1\<rparr>, [], FlushW W w)"
  using assms by (simp add: Execute_def)

theorem Execute_no_rows_witness:
  "ValidateRecipe swapColumns = None
   \<and> Execute listWriter sampleEnv swapColumns [] [] True (- 1)
       = (Inr \<lparr>HeaderLines = 1, Lines = - 1\<rparr>, [], [])"
proof -
  have v: "ValidateRecipe swapColumns = None"
    by code_simp
  from Execute_no_rows [OF v, of listWriter sampleEnv "[]" "- 1"] v show ?thesis
    by (simp add: listWriter_def)
qed

subsection \<open>The context and the output of a row\<close>

lemma foldl_enumerate_upd:
  fixes F :: "(int \<rightharpoonup> 'a) \<Rightarrow> nat \<times> 'a \<Rightarrow> (int \<rightharpoonup> 'a)"
  defines "F \<equiv> (\<lambda>m iv. m(int (fst iv) + 1 \<mapsto> snd iv))"
  shows "foldl F m0 (enumerate k xs) n =
     (if int k + 1 \<le> n \<and> n \<le> int k + int (length xs) then Some (xs ! nat (n - int k - 1)) else m0 n)"
proof (induction xs arbitrary: k m0)
  case Nil
  show ?case by auto
next
  case (Cons x xs)
  have "foldl F m0 (enumerate k (x # xs)) n = foldl F (F m0 (k, x)) (enumerate (Suc k) xs) n"
    by simp
  also have "\<dots> = (if int (Suc k) + 1 \<le> n \<and> n \<le> int (Suc k) + int (length xs)
                     then Some (xs ! nat (n - int (Suc k) - 1)) else F m0 (k, x) n)"
    by (rule Cons.IH)
  also have "\<dots> = (if int k + 1 \<le> n \<and> n \<le> int k + int (length (x # xs))
                     then Some ((x # xs) ! nat (n - int k - 1)) else m0 n)"
    by (auto simp: F_def nth_Cons' nat_diff_distrib)
  finally show ?case .
qed

lemma loadColumns_apply:
  "loadColumns row n = (if 1 \<le> n \<and> n \<le> int (length row) then Some (row ! nat (n - 1)) else None)"
  by (simp add: loadColumns_def foldl_enumerate_upd)

lemma processVariables_columns:
  "processVariables E t vs ctx = Inr ctx' \<Longrightarrow> CtxColumns ctx' = CtxColumns ctx \<and> LineNo ctx' = LineNo ctx"
  by (induction vs arbitrary: ctx) (auto simp: Let_def split: sum.splits)

lemma runRecipes_output:
  "runRecipes E rt m ks ctx out = Inr out' \<Longrightarrow>
     (\<forall>k. out' k = (if k \<in> set ks then (case processRecipe E rt (lookupRecipe E m k) ctx of Inr v \<Rightarrow> Some v | Inl _ \<Rightarrow> None) else out k))"
proof (induction ks arbitrary: out)
  case Nil
  then show ?case by simp
next
  case (Cons k ks)
  then show ?case
    by (auto split: sum.splits)
qed

lemma runRecipes_succeeds:
  "(\<forall>k\<in>set ks. \<exists>v. processRecipe E rt (lookupRecipe E m k) ctx = Inr v) \<Longrightarrow>
     \<exists>out'. runRecipes E rt m ks ctx out = Inr out'"
  by (induction ks arbitrary: out) (auto split: sum.splits)

lemma foldl_upd_apply:
  "foldl (\<lambda>out i. out(i \<mapsto> g i)) m xs i = (if i \<in> set xs then Some (g i) else m i)"
  by (induction xs arbitrary: m) auto

lemma seedHeaders_apply:
  "seedHeaders N row i =
     (if 1 \<le> i \<and> i \<le> N then Some (if i \<le> int (length row) then row ! nat (i - 1) else ''column '' @ Itoa i) else None)"
  by (simp add: seedHeaders_def foldl_upd_apply)

text \<open>The first row of the input is always read, and it is processed as line 1.\<close>

lemma execLoop_first_row:
  "execLoop W E t N ph lineLimit 0 (Inr row # reader) w =
     (case processRow W E t N ph 1 row w of
        (Some err, w') \<Rightarrow> (Inl err, reader, w')
      | (None, w') \<Rightarrow> execLoop W E t N ph lineLimit 1 reader w')"
  by (auto split: prod.splits option.splits)

lemma lookupRecipe_in_keys:
  "map_of m k = Some r \<Longrightarrow> lookupRecipe E m k = r"
  by (simp add: lookupRecipe_def)

lemma processVariables_Columns_upd:
  "processVariables E (t\<lparr>Columns := cs\<rparr>) vs ctx = processVariables E t vs ctx"
  by (induction vs arbitrary: ctx) (auto simp: Let_def split: sum.splits)

lemma header_output_row:
  assumes ok: "\<forall>h\<in>fst ` set (Headers t). \<exists>v. processRecipe E ''header'' (lookupRecipe E (Headers t) h) context = Inr v"
    and run: "runRecipes E ''header'' (Headers t) (map fst (Headers t)) context (seedHeaders N row) = Inr out'"
  shows "outputRow N out' = map (headerField E t context row) [1..N]"
  unfolding outputRow_def
proof (rule map_cong [OF refl])
  fix i assume "i \<in> set [1..N]"
  then have i: "1 \<le> i" "i \<le> N" by auto
  note o = runRecipes_output [OF run, rule_format, of i]
  show "(case out' i of None \<Rightarrow> '''' | Some v \<Rightarrow> v) = headerField E t context row i"
  proof (cases "map_of (Headers t) i")
    case None
    then have "i \<notin> set (map fst (Headers t))"
      by (simp add: map_of_eq_None_iff)
    with o i None show ?thesis
      by (simp add: seedHeaders_apply headerField_def)
  next
    case (Some r)
    then have k: "i \<in> fst ` set (Headers t)"
      by (metis map_of_eq_None_iff option.distinct(1))
    with ok obtain v where v: "processRecipe E ''header'' (lookupRecipe E (Headers t) i) context = Inr v"
      by blast
    from k o v Some show ?thesis
      by (simp add: headerField_def lookupRecipe_in_keys)
  qed
qed

text \<open>
  C5. On the first row with header processing enabled, where the variables of the row and
  the header recipes evaluate, the one row handed to the writer has \<open>N\<close> fields (\<open>N\<close> the
  number of column recipes), and its field at each position \<open>i\<close> of \<open>1..N\<close> is the value of
  the header recipe of \<open>i\<close> where there is one, else field \<open>i\<close> of the input row where the
  row has at least \<open>i\<close> fields, else the text \<^verbatim>\<open>column i\<close>. No column recipe is evaluated:
  whatever the column recipes are, the row is processed in the same way.
\<close>

theorem header_row_fields:
  assumes ctx: "rowContext E t 1 row = Inr context"
    and ok: "\<forall>h\<in>fst ` set (Headers t). \<exists>v. processRecipe E ''header'' (lookupRecipe E (Headers t) h) context = Inr v"
  shows "processRow W E t (int (length (Columns t))) True 1 row w =
           (case WriteRow W w (map (headerField E t context row) [1..int (length (Columns t))]) of
              (Some err, w') \<Rightarrow> (Some (Error err), w')
            | (None, w') \<Rightarrow> (None, w'))
       \<and> processRow W E (t\<lparr>Columns := cs\<rparr>) N True 1 row w = processRow W E t N True 1 row w"
proof
  let ?N = "int (length (Columns t))"
  from ok have "\<forall>k\<in>set (map fst (Headers t)). \<exists>v. processRecipe E ''header'' (lookupRecipe E (Headers t) k) context = Inr v"
    by simp
  from runRecipes_succeeds [OF this] obtain out' where
    run: "runRecipes E ''header'' (Headers t) (map fst (Headers t)) context (seedHeaders ?N row) = Inr out'"
    by blast
  from header_output_row [OF ok run] ctx run
  show "processRow W E t ?N True 1 row w =
           (case WriteRow W w (map (headerField E t context row) [1..?N]) of
              (Some err, w') \<Rightarrow> (Some (Error err), w')
            | (None, w') \<Rightarrow> (None, w'))"
    by (simp add: processRow_def headerBranch_def outputCsvRow_def split: prod.splits option.splits)
  show "processRow W E (t\<lparr>Columns := cs\<rparr>) N True 1 row w = processRow W E t N True 1 row w"
    by (simp add: processRow_def rowContext_def headerBranch_def processVariables_Columns_upd
        split: sum.splits prod.splits option.splits)
qed

lemma rowContext_columns:
  "rowContext E t linesRead row = Inr context \<Longrightarrow> CtxColumns context = loadColumns row"
  by (auto simp: rowContext_def dest!: processVariables_columns)

lemma column_output_row:
  assumes ok: "\<forall>c\<in>fst ` set (Columns t). \<exists>v. processRecipe E ''column'' (lookupRecipe E (Columns t) c) context = Inr v"
    and run: "runRecipes E ''column'' (Columns t) (map fst (Columns t)) context Map.empty = Inr out'"
  shows "outputRow N out' = map (columnField E t context) [1..N]"
  unfolding outputRow_def
proof (rule map_cong [OF refl])
  fix i assume "i \<in> set [1..N]"
  note o = runRecipes_output [OF run, rule_format, of i]
  show "(case out' i of None \<Rightarrow> '''' | Some v \<Rightarrow> v) = columnField E t context i"
  proof (cases "map_of (Columns t) i")
    case None
    then have "i \<notin> set (map fst (Columns t))"
      by (simp add: map_of_eq_None_iff)
    with o None show ?thesis
      by (simp add: columnField_def)
  next
    case (Some r)
    then have k: "i \<in> fst ` set (Columns t)"
      by (metis map_of_eq_None_iff option.distinct(1))
    with ok obtain v where v: "processRecipe E ''column'' (lookupRecipe E (Columns t) i) context = Inr v"
      by blast
    from k o v Some show ?thesis
      by (simp add: columnField_def lookupRecipe_in_keys)
  qed
qed

lemma processRow_columns:
  assumes ctx: "rowContext E t linesRead row = Inr context"
    and br: "\<not> processHeader \<or> linesRead > 1"
    and ok: "\<forall>c\<in>fst ` set (Columns t). \<exists>v. processRecipe E ''column'' (lookupRecipe E (Columns t) c) context = Inr v"
  shows "processRow W E t N processHeader linesRead row w =
           (case WriteRow W w (map (columnField E t context) [1..N]) of
              (Some err, w') \<Rightarrow> (Some (Error err), w')
            | (None, w') \<Rightarrow> (None, if linesRead mod 100 = 0 then FlushW W w' else w'))"
proof -
  from ok have "\<forall>k\<in>set (map fst (Columns t)). \<exists>v. processRecipe E ''column'' (lookupRecipe E (Columns t) k) context = Inr v"
    by simp
  from runRecipes_succeeds [OF this] obtain out' where
    run: "runRecipes E ''column'' (Columns t) (map fst (Columns t)) context Map.empty = Inr out'"
    by blast
  show ?thesis
  proof (cases processHeader)
    case True
    with br have gt: "1 < linesRead" and ne: "linesRead \<noteq> 1"
      by auto
    from column_output_row [OF ok run] ctx run True gt ne show ?thesis
      by (simp add: processRow_def columnBranch_def outputCsvRow_def
          split: prod.splits option.splits)
  next
    case False
    from column_output_row [OF ok run] ctx run False show ?thesis
      by (simp add: processRow_def columnBranch_def outputCsvRow_def
          split: prod.splits option.splits)
  qed
qed

lemma processRow_header:
  assumes ctx: "rowContext E t 1 row = Inr context"
    and ok: "\<forall>h\<in>fst ` set (Headers t). \<exists>v. processRecipe E ''header'' (lookupRecipe E (Headers t) h) context = Inr v"
  shows "processRow W E t N True 1 row w =
           (case WriteRow W w (map (headerField E t context row) [1..N]) of
              (Some err, w') \<Rightarrow> (Some (Error err), w')
            | (None, w') \<Rightarrow> (None, w'))"
proof -
  from ok have "\<forall>k\<in>set (map fst (Headers t)). \<exists>v. processRecipe E ''header'' (lookupRecipe E (Headers t) k) context = Inr v"
    by simp
  from runRecipes_succeeds [OF this] obtain out' where
    run: "runRecipes E ''header'' (Headers t) (map fst (Headers t)) context (seedHeaders N row) = Inr out'"
    by blast
  from header_output_row [OF ok run] ctx run show ?thesis
    by (simp add: processRow_def headerBranch_def outputCsvRow_def split: prod.splits option.splits)
qed

text \<open>Every row of the input that is read is processed by \<open>processRow\<close>, under its line number.\<close>

lemma execLoop_row:
  "\<not> (lineLimit > 0 \<and> linesRead \<ge> lineLimit) \<Longrightarrow>
   execLoop W E t N ph lineLimit linesRead (Inr row # reader) w =
     (case processRow W E t N ph (linesRead + 1) row w of
        (Some err, w') \<Rightarrow> (Inl err, reader, w')
      | (None, w') \<Rightarrow> execLoop W E t N ph lineLimit (linesRead + 1) reader w')"
  by (auto split: prod.splits option.splits)

text \<open>
  C9. While a row is processed, the context, once the variables of the row are bound, has
  exactly the fields of the input row as its columns (field \<open>i\<close> at key \<open>i + 1\<close>), so that
  an argument \<open>Column(n)\<close> reads field \<open>n\<close> of the input row in it; and the row that
  \<open>processRow\<close> hands to the writer holds, at every position, the value of the column recipe
  (on the header row: of the header recipe, where there is one) evaluated in this one
  context: no recipe of the row is evaluated in a context that an earlier recipe's output
  has changed.
\<close>

theorem row_columns_fixed:
  assumes "rowContext E t linesRead row = Inr context"
  shows "CtxColumns context = (\<lambda>n. if 1 \<le> n \<and> n \<le> int (length row) then Some (row ! nat (n - 1)) else None)
     \<and> (1 \<le> n \<and> n \<le> int (length row) \<and> n < 2 ^ 63
          \<longrightarrow> GetValue E \<lparr>Type = Column, Value = Itoa n\<rparr> context placeholder = Inr (row ! nat (n - 1)))
     \<and> ((\<not> processHeader \<or> linesRead > 1)
          \<and> (\<forall>c\<in>fst ` set (Columns t).
                \<exists>v. processRecipe E ''column'' (lookupRecipe E (Columns t) c) context = Inr v)
          \<longrightarrow> processRow W E t N processHeader linesRead row w =
                (case WriteRow W w (map (columnField E t context) [1..N]) of
                   (Some err, w') \<Rightarrow> (Some (Error err), w')
                 | (None, w') \<Rightarrow> (None, if linesRead mod 100 = 0 then FlushW W w' else w')))
     \<and> (processHeader \<and> linesRead = 1
          \<and> (\<forall>h\<in>fst ` set (Headers t).
                \<exists>v. processRecipe E ''header'' (lookupRecipe E (Headers t) h) context = Inr v)
          \<longrightarrow> processRow W E t N processHeader linesRead row w =
                (case WriteRow W w (map (headerField E t context row) [1..N]) of
                   (Some err, w') \<Rightarrow> (Some (Error err), w')
                 | (None, w') \<Rightarrow> (None, w')))"
proof (intro conjI impI)
  show c: "CtxColumns context = (\<lambda>n. if 1 \<le> n \<and> n \<le> int (length row) then Some (row ! nat (n - 1)) else None)"
    using rowContext_columns [OF assms] by (auto simp: loadColumns_apply)
  show "GetValue E \<lparr>Type = Column, Value = Itoa n\<rparr> context placeholder = Inr (row ! nat (n - 1))"
    if "1 \<le> n \<and> n \<le> int (length row) \<and> n < 2 ^ 63"
  proof -
    from that have "Atoi (Itoa n) = n" by (intro Atoi_Itoa) auto
    with that c show ?thesis by (simp add: GetValue_def)
  qed
  show "processRow W E t N processHeader linesRead row w =
          (case WriteRow W w (map (columnField E t context) [1..N]) of
             (Some err, w') \<Rightarrow> (Some (Error err), w')
           | (None, w') \<Rightarrow> (None, if linesRead mod 100 = 0 then FlushW W w' else w'))"
    if "(\<not> processHeader \<or> linesRead > 1)
          \<and> (\<forall>c\<in>fst ` set (Columns t).
                \<exists>v. processRecipe E ''column'' (lookupRecipe E (Columns t) c) context = Inr v)"
    using that by (intro processRow_columns [OF assms]) simp_all
  show "processRow W E t N processHeader linesRead row w =
          (case WriteRow W w (map (headerField E t context row) [1..N]) of
             (Some err, w') \<Rightarrow> (Some (Error err), w')
           | (None, w') \<Rightarrow> (None, w'))"
    if h: "processHeader \<and> linesRead = 1
          \<and> (\<forall>h\<in>fst ` set (Headers t).
                \<exists>v. processRecipe E ''header'' (lookupRecipe E (Headers t) h) context = Inr v)"
  proof -
    from h assms have ctx: "rowContext E t 1 row = Inr context"
      by simp
    from h have ok: "\<forall>h\<in>fst ` set (Headers t).
        \<exists>v. processRecipe E ''header'' (lookupRecipe E (Headers t) h) context = Inr v"
      by simp
    from processRow_header [OF ctx ok] h show ?thesis
      by simp
  qed
qed

lemma Atoi_two: "Atoi ''2'' = 2"
  by code_simp

theorem header_row_fields_witness:
  "rowContext sampleEnv namedColumns 1 [''header'']
     = Inr \<lparr>CtxVariables = Map.empty, CtxColumns = loadColumns [''header''], LineNo = 1\<rparr>
   \<and> processRecipe sampleEnv ''header'' (lookupRecipe sampleEnv (Headers namedColumns) 2)
        \<lparr>CtxVariables = Map.empty, CtxColumns = loadColumns [''header''], LineNo = 1\<rparr> = Inr ''apple''
   \<and> processRow listWriter sampleEnv namedColumns (int (length (Columns namedColumns))) True 1 [''header''] []
       = (None, [[''header'', ''apple'', ''column 3'']])"
proof -
  let ?ctx = "\<lparr>CtxVariables = Map.empty, CtxColumns = loadColumns [''header''], LineNo = 1\<rparr>"
  have c: "rowContext sampleEnv namedColumns 1 [''header''] = Inr ?ctx"
    by (simp add: rowContext_def namedColumns_def)
  have h: "processRecipe sampleEnv ''header'' (lookupRecipe sampleEnv (Headers namedColumns) 2) ?ctx = Inr ''apple''"
    by code_simp
  have k: "fst ` set (Headers namedColumns) = {2}"
    by (simp add: namedColumns_def headerEntry_def Atoi_two)
  have ok: "\<forall>h\<in>fst ` set (Headers namedColumns).
              \<exists>v. processRecipe sampleEnv ''header'' (lookupRecipe sampleEnv (Headers namedColumns) h) ?ctx = Inr v"
    using h k by simp
  have f: "map (headerField sampleEnv namedColumns ?ctx [''header'']) [1..int (length (Columns namedColumns))]
             = [''header'', ''apple'', ''column 3'']"
    by code_simp
  from header_row_fields [OF c ok, where W = listWriter and w = "[]"] f c h show ?thesis
    by (simp add: listWriter_def)
qed

theorem row_columns_fixed_witness:
  "rowContext sampleEnv swapColumns 2 [''a'', ''b'']
     = Inr \<lparr>CtxVariables = Map.empty, CtxColumns = loadColumns [''a'', ''b''], LineNo = 2\<rparr>
   \<and> (1::int) \<le> 1 \<and> (1::int) \<le> int (length [''a'', ''b'']) \<and> (1::int) < 2 ^ 63
   \<and> GetValue sampleEnv \<lparr>Type = Column, Value = Itoa 1\<rparr>
        \<lparr>CtxVariables = Map.empty, CtxColumns = loadColumns [''a'', ''b''], LineNo = 2\<rparr> ''x'' = Inr ''a''
   \<and> processRecipe sampleEnv ''column'' (lookupRecipe sampleEnv (Columns swapColumns) 1)
        \<lparr>CtxVariables = Map.empty, CtxColumns = loadColumns [''a'', ''b''], LineNo = 2\<rparr> = Inr ''b''
   \<and> processRecipe sampleEnv ''column'' (lookupRecipe sampleEnv (Columns swapColumns) 2)
        \<lparr>CtxVariables = Map.empty, CtxColumns = loadColumns [''a'', ''b''], LineNo = 2\<rparr> = Inr ''a''
   \<and> processRow listWriter sampleEnv swapColumns 2 True 2 [''a'', ''b''] [] = (None, [[''b'', ''a'']])
   \<and> rowContext sampleEnv echoFirst 1 [''a'', ''b'']
     = Inr \<lparr>CtxVariables = Map.empty, CtxColumns = loadColumns [''a'', ''b''], LineNo = 1\<rparr>
   \<and> processRecipe sampleEnv ''header'' (lookupRecipe sampleEnv (Headers echoFirst) 1)
        \<lparr>CtxVariables = Map.empty, CtxColumns = loadColumns [''a'', ''b''], LineNo = 1\<rparr> = Inr ''a''
   \<and> processRow listWriter sampleEnv echoFirst 1 True 1 [''a'', ''b''] [] = (None, [[''a'']])"
proof -
  let ?ctx = "\<lparr>CtxVariables = Map.empty, CtxColumns = loadColumns [''a'', ''b''], LineNo = 2\<rparr>"
  let ?ctx1 = "\<lparr>CtxVariables = Map.empty, CtxColumns = loadColumns [''a'', ''b''], LineNo = 1\<rparr>"
  have c: "rowContext sampleEnv swapColumns 2 [''a'', ''b''] = Inr ?ctx"
    by (simp add: rowContext_def swapColumns_def)
  have b: "(1::int) \<le> 1 \<and> (1::int) \<le> int (length [''a'', ''b'']) \<and> (1::int) < 2 ^ 63"
    by simp
  have p1: "processRecipe sampleEnv ''column'' (lookupRecipe sampleEnv (Columns swapColumns) 1) ?ctx = Inr ''b''"
    by code_simp
  have p2: "processRecipe sampleEnv ''column'' (lookupRecipe sampleEnv (Columns swapColumns) 2) ?ctx = Inr ''a''"
    by code_simp
  have k: "fst ` set (Columns swapColumns) = {1, 2}"
    by (simp add: swapColumns_def columnEntry_def Atoi_one Atoi_two)
  have ok: "\<forall>c\<in>fst ` set (Columns swapColumns).
              \<exists>v. processRecipe sampleEnv ''column'' (lookupRecipe sampleEnv (Columns swapColumns) c) ?ctx = Inr v"
    unfolding k using p1 p2 by simp
  have br: "\<not> True \<or> (2::int) > 1"
    by simp
  have f: "map (columnField sampleEnv swapColumns ?ctx) [1..2] = [''b'', ''a'']"
    by code_simp
  note w = row_columns_fixed [OF c, where n = 1 and placeholder = "''x''" and processHeader = True
      and W = listWriter and N = 2 and w = "[]"]
  from w [THEN conjunct2, THEN conjunct1, rule_format, OF b]
  have g: "GetValue sampleEnv \<lparr>Type = Column, Value = Itoa 1\<rparr> ?ctx ''x'' = Inr ''a''"
    by simp
  have "processRow listWriter sampleEnv swapColumns 2 True 2 [''a'', ''b''] [] =
          (case WriteRow listWriter [] (map (columnField sampleEnv swapColumns ?ctx) [1..2]) of
             (Some err, w') \<Rightarrow> (Some (Error err), w')
           | (None, w') \<Rightarrow> (None, if (2::int) mod 100 = 0 then FlushW listWriter w' else w'))"
    by (rule w [THEN conjunct2, THEN conjunct2, THEN conjunct1, rule_format, OF conjI [OF br ok]])
  also have "\<dots> = (None, [[''b'', ''a'']])"
    by (simp only: f) (simp add: listWriter_def)
  finally have r: "processRow listWriter sampleEnv swapColumns 2 True 2 [''a'', ''b''] []
                     = (None, [[''b'', ''a'']])" .
  have c1: "rowContext sampleEnv echoFirst 1 [''a'', ''b''] = Inr ?ctx1"
    by (simp add: rowContext_def echoFirst_def)
  have h1: "processRecipe sampleEnv ''header'' (lookupRecipe sampleEnv (Headers echoFirst) 1) ?ctx1 = Inr ''a''"
    by code_simp
  have kh: "fst ` set (Headers echoFirst) = {1}"
    by (simp add: echoFirst_def headerEntry_def Atoi_one)
  have hh: "True \<and> (1::int) = 1
      \<and> (\<forall>h\<in>fst ` set (Headers echoFirst).
            \<exists>v. processRecipe sampleEnv ''header'' (lookupRecipe sampleEnv (Headers echoFirst) h) ?ctx1 = Inr v)"
    unfolding kh using h1 by simp
  have fh: "map (headerField sampleEnv echoFirst ?ctx1 [''a'', ''b'']) [1..1] = [''a'']"
    by code_simp
  have "processRow listWriter sampleEnv echoFirst 1 True 1 [''a'', ''b''] [] =
          (case WriteRow listWriter [] (map (headerField sampleEnv echoFirst ?ctx1 [''a'', ''b'']) [1..1]) of
             (Some err, w') \<Rightarrow> (Some (Error err), w')
           | (None, w') \<Rightarrow> (None, w'))"
    by (rule row_columns_fixed [OF c1, where processHeader = True and W = listWriter and N = 1
          and w = "[]", THEN conjunct2, THEN conjunct2, THEN conjunct2, rule_format, OF hh])
  also have "\<dots> = (None, [[''a'']])"
    by (simp only: fh) (simp add: listWriter_def)
  finally have rh: "processRow listWriter sampleEnv echoFirst 1 True 1 [''a'', ''b''] [] = (None, [[''a'']])" .
  from c b g p1 p2 r c1 h1 rh show ?thesis
    by blast
qed

subsection \<open>The keys of the maps of a transformation\<close>

lemma keys_AddOutputToVariable:
  "Columns (snd (AddOutputToVariable v t)) = Columns t"
  "Headers (snd (AddOutputToVariable v t)) = Headers t"
  "distinct (map fst (Variables t)) \<Longrightarrow> distinct (map fst (Variables (snd (AddOutputToVariable v t))))"
  by (simp_all add: AddOutputToVariable_def distinct_update split: option.splits)

lemma keys_AddOutputToColumn:
  "Variables (snd (AddOutputToColumn c t)) = Variables t"
  "Headers (snd (AddOutputToColumn c t)) = Headers t"
  "distinct (map fst (Columns t)) \<Longrightarrow> distinct (map fst (Columns (snd (AddOutputToColumn c t))))"
  by (simp_all add: AddOutputToColumn_def Let_def distinct_update split: option.splits)

lemma keys_AddOutputToHeader:
  "Variables (snd (AddOutputToHeader h t)) = Variables t"
  "Columns (snd (AddOutputToHeader h t)) = Columns t"
  "distinct (map fst (Headers t)) \<Longrightarrow> distinct (map fst (Headers (snd (AddOutputToHeader h t))))"
  by (simp_all add: AddOutputToHeader_def Let_def distinct_update split: option.splits)

lemma distinctKeys_applyCall: "distinctKeys t \<Longrightarrow> distinctKeys (applyCall E t c)"
proof (cases c)
  case (CallAddOutputToVariable v)
  then show "distinctKeys t \<Longrightarrow> ?thesis"
    by (simp add: distinctKeys_def keys_AddOutputToVariable)
next
  case (CallAddOperationToVariable v operation)
  then show "distinctKeys t \<Longrightarrow> ?thesis"
    by (simp add: distinctKeys_def AddOperationToVariable_def Let_def keys_AddOutputToVariable distinct_update)
next
  case (CallAddOperationByType ty target operation)
  then show "distinctKeys t \<Longrightarrow> ?thesis"
    by (cases ty)
      (simp_all add: distinctKeys_def AddOperationByType_def AddOperationToVariable_def
        AddOperationToColumn_def AddOperationToHeader_def Let_def keys_AddOutputToVariable
        keys_AddOutputToColumn keys_AddOutputToHeader distinct_update)
qed

lemma distinctKeys_applyCalls: "distinctKeys t \<Longrightarrow> distinctKeys (applyCalls E calls t)"
  unfolding applyCalls_def
  by (induction calls arbitrary: t) (simp_all add: distinctKeys_applyCall)

lemma distinctKeys_NewTransformation: "distinctKeys NewTransformation"
  by (simp add: distinctKeys_def NewTransformation_def)

subsection \<open>The order of the variables\<close>

lemma VariableOrder_AddOutputToVariable: "VariableOrder (snd (AddOutputToVariable v t)) = VariableOrder t"
  by (simp add: AddOutputToVariable_def split: option.splits)

lemma VariableOrder_AddOutputToColumn: "VariableOrder (snd (AddOutputToColumn c t)) = VariableOrder t"
  by (simp add: AddOutputToColumn_def Let_def split: option.splits)

lemma VariableOrder_AddOutputToHeader: "VariableOrder (snd (AddOutputToHeader h t)) = VariableOrder t"
  by (simp add: AddOutputToHeader_def Let_def split: option.splits)

lemma VariableOrder_AddOperationToVariable:
  "VariableOrder (AddOperationToVariable E v operation t) = VariableOrder t"
  by (simp add: AddOperationToVariable_def Let_def VariableOrder_AddOutputToVariable)

lemma VariableOrder_AddOperationToColumn:
  "VariableOrder (AddOperationToColumn E c operation t) = VariableOrder t"
  by (simp add: AddOperationToColumn_def Let_def VariableOrder_AddOutputToColumn)

lemma VariableOrder_AddOperationToHeader:
  "VariableOrder (AddOperationToHeader E h operation t) = VariableOrder t"
  by (simp add: AddOperationToHeader_def Let_def VariableOrder_AddOutputToHeader)

lemma VariableOrder_applyCall: "VariableOrder (applyCall E t c) = VariableOrder t"
proof (cases c)
  case (CallAddOperationByType ty target operation)
  then show ?thesis
    by (cases ty)
      (simp_all add: AddOperationByType_def VariableOrder_AddOperationToVariable
        VariableOrder_AddOperationToColumn VariableOrder_AddOperationToHeader)
qed (simp_all add: VariableOrder_AddOutputToVariable VariableOrder_AddOperationToVariable)

lemma VariableOrder_applyCalls: "VariableOrder (applyCalls E calls t) = VariableOrder t"
  unfolding applyCalls_def
  by (induction calls arbitrary: t) (simp_all add: VariableOrder_applyCall)

lemma processVariables_append:
  "processVariables E t (vs @ ws) ctx =
     (case processVariables E t vs ctx of
        Inl err \<Rightarrow> Inl err
      | Inr ctx' \<Rightarrow> processVariables E t ws ctx')"
  by (induction vs arbitrary: ctx) (auto simp: Let_def split: sum.splits)

lemma processVariables_dom:
  "processVariables E t vs ctx = Inr ctx' \<Longrightarrow>
     dom (CtxVariables ctx') =
       dom (CtxVariables ctx) \<union> (\<lambda>v. OValue (Output (lookupRecipe E (Variables t) v))) ` set vs"
  by (induction vs arbitrary: ctx) (auto simp: Let_def split: sum.splits)

text \<open>
  C8, as the claim states it, fails: after the calls that declare the variable \<^verbatim>\<open>$foo\<close>,
  give it the recipe \<^verbatim>\<open>$foo <- 2\<close> and add the column recipe \<^verbatim>\<open>1 <- $foo\<close>, the map of
  variables has the key \<^verbatim>\<open>$foo\<close> and \<open>VariableOrder\<close> is empty; Execute then does not
  evaluate the variable, and the column recipe finds it undefined.
\<close>

theorem VariableOrder_counterexample:
  "map fst (Variables (applyCalls sampleEnv fooCalls NewTransformation)) = [''$foo'']
   \<and> VariableOrder (applyCalls sampleEnv fooCalls NewTransformation) = []
   \<and> Execute listWriter sampleEnv (applyCalls sampleEnv fooCalls NewTransformation)
        [Inr [''apple'', ''banana'']] [] False (- 1)
      = (Inl (Error ''line 1 / column 1: variable '$foo' referenced, but it is not defined''), [], [])"
  by code_simp

lemma processVariables_VariableOrder_upd:
  "processVariables E (t\<lparr>VariableOrder := order\<rparr>) vs ctx = processVariables E t vs ctx"
  by (induction vs arbitrary: ctx) (auto simp: Let_def split: sum.splits)

lemma rowContext_no_variables:
  "VariableOrder t = [] \<Longrightarrow>
   rowContext E t linesRead row
     = Inr \<lparr>CtxVariables = Map.empty, CtxColumns = loadColumns row, LineNo = linesRead\<rparr>"
  by (simp add: rowContext_def)

lemma rowContext_last_variable:
  assumes "VariableOrder t = vs @ [v]"
  shows "rowContext E t linesRead row =
     (case rowContext E (t\<lparr>VariableOrder := vs\<rparr>) linesRead row of
        Inl err \<Rightarrow> Inl err
      | Inr c \<Rightarrow>
          (case processRecipe E ''variable'' (lookupRecipe E (Variables t) v) c of
             Inl err \<Rightarrow> Inl err
           | Inr p \<Rightarrow>
               Inr (c\<lparr>CtxVariables := (CtxVariables c)(OValue (Output (lookupRecipe E (Variables t) v)) \<mapsto> p)\<rparr>)))"
  using assms
  by (simp add: rowContext_def processVariables_append processVariables_VariableOrder_upd Let_def
      split: sum.splits)

lemma Execute_one_row:
  assumes "ValidateRecipe t = None"
  shows "Execute W E t [Inr row] w processHeader lineLimit =
     (case rowContext E t 1 row of
        Inl err \<Rightarrow> (Inl err, [], FlushW W w)
      | Inr c \<Rightarrow>
          (case (if processHeader then headerBranch W E t (int (length (Columns t))) row c w
                 else columnBranch W E t (int (length (Columns t))) c w) of
             (Some err, w') \<Rightarrow> (Inl err, [], FlushW W w')
           | (None, w') \<Rightarrow>
               (Inr \<lparr>HeaderLines = (if processHeader then 1 else 0),
                      Lines = 1 - (if processHeader then 1 else 0)\<rparr>, [], FlushW W w')))"
  using assms
  by (cases processHeader)
    (auto simp: Execute_def processRow_def Let_def split: sum.splits prod.splits option.splits)

text \<open>
  C8, amended. The calls AddOutputToVariable, AddOperationToVariable and AddOperationByType
  leave \<open>VariableOrder\<close> as it is: after any sequence of them it is what it was before,
  whatever variables were declared. For a row, Execute evaluates the recipes of the names
  in \<open>VariableOrder\<close> and no other: with an empty \<open>VariableOrder\<close> no variable is bound,
  and the last name of \<open>VariableOrder\<close> is evaluated in the context that the names before
  it have produced, its result bound in that context under the variable of its recipe.
  An error of a variable recipe is the result of Execute, and the header or column recipes
  of the row run in the context so produced.
\<close>

theorem VariableOrder_kept:
  "VariableOrder (applyCalls E calls t) = VariableOrder t
   \<and> (VariableOrder t0 = [] \<longrightarrow>
        rowContext E t0 linesRead row
          = Inr \<lparr>CtxVariables = Map.empty, CtxColumns = loadColumns row, LineNo = linesRead\<rparr>)
   \<and> (VariableOrder t1 = vs @ [v] \<longrightarrow>
        rowContext E t1 linesRead row =
          (case rowContext E (t1\<lparr>VariableOrder := vs\<rparr>) linesRead row of
             Inl err \<Rightarrow> Inl err
           | Inr c \<Rightarrow>
               (case processRecipe E ''variable'' (lookupRecipe E (Variables t1) v) c of
                  Inl err \<Rightarrow> Inl err
                | Inr p \<Rightarrow>
                    Inr (c\<lparr>CtxVariables :=
                           (CtxVariables c)(OValue (Output (lookupRecipe E (Variables t1) v)) \<mapsto> p)\<rparr>))))
   \<and> (ValidateRecipe t1 = None \<longrightarrow>
        Execute W E t1 [Inr row] w processHeader lineLimit =
          (case rowContext E t1 1 row of
             Inl err \<Rightarrow> (Inl err, [], FlushW W w)
           | Inr c \<Rightarrow>
               (case (if processHeader then headerBranch W E t1 (int (length (Columns t1))) row c w
                      else columnBranch W E t1 (int (length (Columns t1))) c w) of
                  (Some err, w') \<Rightarrow> (Inl err, [], FlushW W w')
                | (None, w') \<Rightarrow>
                    (Inr \<lparr>HeaderLines = (if processHeader then 1 else 0),
                           Lines = 1 - (if processHeader then 1 else 0)\<rparr>, [], FlushW W w'))))
   \<and> (\<not> (lineLimit > 0 \<and> n \<ge> lineLimit) \<longrightarrow>
        execLoop W E t1 N processHeader lineLimit n (Inr row # reader) w =
          (case rowContext E t1 (n + 1) row of
             Inl err \<Rightarrow> (Inl err, reader, w)
           | Inr c \<Rightarrow>
               (case processRow W E t1 N processHeader (n + 1) row w of
                  (Some err, w') \<Rightarrow> (Inl err, reader, w')
                | (None, w') \<Rightarrow> execLoop W E t1 N processHeader lineLimit (n + 1) reader w')))"
proof (intro conjI impI)
  show "VariableOrder (applyCalls E calls t) = VariableOrder t"
    by (rule VariableOrder_applyCalls)
  show "rowContext E t0 linesRead row
          = Inr \<lparr>CtxVariables = Map.empty, CtxColumns = loadColumns row, LineNo = linesRead\<rparr>"
    if "VariableOrder t0 = []"
    using that by (rule rowContext_no_variables)
  show "rowContext E t1 linesRead row =
          (case rowContext E (t1\<lparr>VariableOrder := vs\<rparr>) linesRead row of
             Inl err \<Rightarrow> Inl err
           | Inr c \<Rightarrow>
               (case processRecipe E ''variable'' (lookupRecipe E (Variables t1) v) c of
                  Inl err \<Rightarrow> Inl err
                | Inr p \<Rightarrow>
                    Inr (c\<lparr>CtxVariables :=
                           (CtxVariables c)(OValue (Output (lookupRecipe E (Variables t1) v)) \<mapsto> p)\<rparr>)))"
    if "VariableOrder t1 = vs @ [v]"
    using that by (rule rowContext_last_variable)
  show "Execute W E t1 [Inr row] w processHeader lineLimit =
          (case rowContext E t1 1 row of
             Inl err \<Rightarrow> (Inl err, [], FlushW W w)
           | Inr c \<Rightarrow>
               (case (if processHeader then headerBranch W E t1 (int (length (Columns t1))) row c w
                      else columnBranch W E t1 (int (length (Columns t1))) c w) of
                  (Some err, w') \<Rightarrow> (Inl err, [], FlushW W w')
                | (None, w') \<Rightarrow>
                    (Inr \<lparr>HeaderLines = (if processHeader then 1 else 0),
                           Lines = 1 - (if processHeader then 1 else 0)\<rparr>, [], FlushW W w')))"
    if "ValidateRecipe t1 = None"
    using that by (rule Execute_one_row)
  show "execLoop W E t1 N processHeader lineLimit n (Inr row # reader) w =
          (case rowContext E t1 (n + 1) row of
             Inl err \<Rightarrow> (Inl err, reader, w)
           | Inr c \<Rightarrow>
               (case processRow W E t1 N processHeader (n + 1) row w of
                  (Some err, w') \<Rightarrow> (Inl err, reader, w')
                | (None, w') \<Rightarrow> execLoop W E t1 N processHeader lineLimit (n + 1) reader w'))"
    if "\<not> (lineLimit > 0 \<and> n \<ge> lineLimit)"
    using execLoop_row [OF that, of W E t1 N processHeader row reader w]
    by (simp add: processRow_def split: sum.splits)
qed

theorem VariableOrder_kept_witness:
  "VariableOrder (applyCalls sampleEnv fooCalls NewTransformation) = VariableOrder NewTransformation
   \<and> VariableOrder (applyCalls sampleEnv fooCalls NewTransformation) = []
   \<and> rowContext sampleEnv (applyCalls sampleEnv fooCalls NewTransformation) 1 [''apple'', ''banana'']
       = Inr \<lparr>CtxVariables = Map.empty, CtxColumns = loadColumns [''apple'', ''banana''], LineNo = 1\<rparr>
   \<and> VariableOrder ((applyCalls sampleEnv fooCalls NewTransformation)\<lparr>VariableOrder := [''$foo'']\<rparr>)
       = [] @ [''$foo'']
   \<and> rowContext sampleEnv ((applyCalls sampleEnv fooCalls NewTransformation)\<lparr>VariableOrder := [''$foo'']\<rparr>)
        1 [''apple'', ''banana'']
       = Inr \<lparr>CtxVariables = [''$foo'' \<mapsto> ''banana''], CtxColumns = loadColumns [''apple'', ''banana''],
              LineNo = 1\<rparr>
   \<and> ValidateRecipe ((applyCalls sampleEnv fooCalls NewTransformation)\<lparr>VariableOrder := [''$foo'']\<rparr>) = None
   \<and> Execute listWriter sampleEnv
        ((applyCalls sampleEnv fooCalls NewTransformation)\<lparr>VariableOrder := [''$foo'']\<rparr>)
        [Inr [''apple'', ''banana'']] [] False (- 1)
       = (Inr \<lparr>HeaderLines = 0, Lines = 1\<rparr>, [], [[''banana'']])
   \<and> \<not> ((- 1 :: int) > 0 \<and> (0 :: int) \<ge> - 1)"
proof -
  let ?t0 = "applyCalls sampleEnv fooCalls NewTransformation"
  let ?t1 = "(applyCalls sampleEnv fooCalls NewTransformation)\<lparr>VariableOrder := [''$foo'']\<rparr>"
  let ?row = "[''apple'', ''banana'']"
  let ?ctx0 = "\<lparr>CtxVariables = Map.empty, CtxColumns = loadColumns ?row, LineNo = 1\<rparr>"
  let ?ctx1 = "\<lparr>CtxVariables = [''$foo'' \<mapsto> ''banana''], CtxColumns = loadColumns ?row, LineNo = 1\<rparr>"
  note w = VariableOrder_kept [where E = sampleEnv and calls = fooCalls and t = NewTransformation
      and ?t0.0 = ?t0 and ?t1.0 = ?t1 and vs = "[]" and v = "''$foo''" and linesRead = 1
      and row = ?row and W = listWriter and w = "[]" and processHeader = False
      and lineLimit = "- 1" and n = 0 and N = 1 and reader = "[]"]
  have a: "VariableOrder ?t0 = VariableOrder NewTransformation"
    by (rule w [THEN conjunct1])
  then have h0: "VariableOrder ?t0 = []"
    by (simp add: NewTransformation_def)
  have r0: "rowContext sampleEnv ?t0 1 ?row = Inr ?ctx0"
    by (rule w [THEN conjunct2, THEN conjunct1, rule_format, OF h0])
  have h1: "VariableOrder ?t1 = [] @ [''$foo'']"
    by simp
  have u: "rowContext sampleEnv (?t1\<lparr>VariableOrder := []\<rparr>) 1 ?row = Inr ?ctx0"
    by (simp add: rowContext_def)
  have p: "processRecipe sampleEnv ''variable'' (lookupRecipe sampleEnv (Variables ?t1) ''$foo'') ?ctx0
             = Inr ''banana''"
    by code_simp
  have nm: "OValue (Output (lookupRecipe sampleEnv (Variables ?t1) ''$foo'')) = ''$foo''"
    by code_simp
  have "rowContext sampleEnv ?t1 1 ?row =
          (case rowContext sampleEnv (?t1\<lparr>VariableOrder := []\<rparr>) 1 ?row of
             Inl err \<Rightarrow> Inl err
           | Inr c \<Rightarrow>
               (case processRecipe sampleEnv ''variable'' (lookupRecipe sampleEnv (Variables ?t1) ''$foo'') c of
                  Inl err \<Rightarrow> Inl err
                | Inr p \<Rightarrow>
                    Inr (c\<lparr>CtxVariables :=
                           (CtxVariables c)(OValue (Output (lookupRecipe sampleEnv (Variables ?t1) ''$foo'')) \<mapsto> p)\<rparr>)))"
    by (rule w [THEN conjunct2, THEN conjunct2, THEN conjunct1, rule_format, OF h1])
  also have "\<dots> = Inr ?ctx1"
    by (simp only: u p nm sum.case) simp
  finally have r1: "rowContext sampleEnv ?t1 1 ?row = Inr ?ctx1" .
  have v: "ValidateRecipe ?t1 = None"
    by code_simp
  have cb: "columnBranch listWriter sampleEnv ?t1 (int (length (Columns ?t1))) ?ctx1 []
              = (None, [[''banana'']])"
    by code_simp
  have "Execute listWriter sampleEnv ?t1 [Inr ?row] [] False (- 1) =
          (case rowContext sampleEnv ?t1 1 ?row of
             Inl err \<Rightarrow> (Inl err, [], FlushW listWriter [])
           | Inr c \<Rightarrow>
               (case (if False then headerBranch listWriter sampleEnv ?t1 (int (length (Columns ?t1))) ?row c []
                      else columnBranch listWriter sampleEnv ?t1 (int (length (Columns ?t1))) c []) of
                  (Some err, w') \<Rightarrow> (Inl err, [], FlushW listWriter w')
                | (None, w') \<Rightarrow>
                    (Inr \<lparr>HeaderLines = (if False then 1 else 0),
                           Lines = 1 - (if False then 1 else 0)\<rparr>, [], FlushW listWriter w')))"
    by (rule w [THEN conjunct2, THEN conjunct2, THEN conjunct2, THEN conjunct1, rule_format, OF v])
  also have "\<dots> = (Inr \<lparr>HeaderLines = 0, Lines = 1\<rparr>, [], [[''banana'']])"
    by (simp only: r1 sum.case if_False cb) (simp add: listWriter_def)
  finally have e: "Execute listWriter sampleEnv ?t1 [Inr ?row] [] False (- 1)
                     = (Inr \<lparr>HeaderLines = 0, Lines = 1\<rparr>, [], [[''banana'']])" .
  have l: "\<not> ((- 1 :: int) > 0 \<and> (0 :: int) \<ge> - 1)"
    by simp
  from a h0 r0 h1 r1 v e l show ?thesis
    by blast
qed

end
